theory Spec2Isabelle
  imports Main "HOL-Library.AList" "HOL-Library.Multiset" "HOL-Library.Sublist"
begin

section \<open>Python strings\<close>

text \<open>
  A Python \<open>str\<close> is a sequence of code points. The model covers the code points below
  256 (the Latin-1 range), one \<^typ>\<open>char\<close> each, so \<^const>\<open>length\<close> is Python's \<open>len\<close>.
  \<open>ord\<close> is the code point of a character.
\<close>

definition ord :: "char \<Rightarrow> nat" where
  "ord c = of_char c"

text \<open>
  \<open>str.isalnum\<close> is Unicode-aware: a character counts when it is a letter (category L*),
  a decimal, a digit or a numeric character. Below 256 these are the ASCII digits and
  letters and, above 127, the ordinal indicators (170, 186), the superscript digits
  (178, 179, 185), the micro sign (181), the vulgar fractions (188 to 190) and the
  accented letters 192 to 255 without the multiplication (215) and division (247) signs.
  The empty string is not alphanumeric.
\<close>

definition isalnum_char :: "char \<Rightarrow> bool" where
  "isalnum_char c =
     (let n = ord c in
        (48 \<le> n \<and> n \<le> 57) \<or> (65 \<le> n \<and> n \<le> 90) \<or> (97 \<le> n \<and> n \<le> 122) \<or>
        n = 170 \<or> n = 178 \<or> n = 179 \<or> n = 181 \<or> n = 185 \<or> n = 186 \<or>
        n = 188 \<or> n = 189 \<or> n = 190 \<or>
        (192 \<le> n \<and> n \<le> 214) \<or> (216 \<le> n \<and> n \<le> 246) \<or> (248 \<le> n \<and> n \<le> 255))"

definition isalnum :: "string \<Rightarrow> bool" where
  "isalnum s = (s \<noteq> [] \<and> list_all isalnum_char s)"

text \<open>
  \<open>str.lower\<close>: below 256 the upper-case letters are A to Z (65 to 90) and the accented
  capitals 192 to 222 without 215; each has its lower-case form 32 code points higher.
\<close>

definition lower_char :: "char \<Rightarrow> char" where
  "lower_char c =
     (let n = ord c in
        if (65 \<le> n \<and> n \<le> 90) \<or> (192 \<le> n \<and> n \<le> 214) \<or> (216 \<le> n \<and> n \<le> 222)
        then char_of (n + 32) else c)"

definition lower :: "string \<Rightarrow> string" where
  "lower s = map lower_char s"

text \<open>\<open>s.replace("-", "")\<close>: every hyphen is removed.\<close>

definition replace_hyphens :: "string \<Rightarrow> string" where
  "replace_hyphens s = filter (\<lambda>c. c \<noteq> CHR ''-'') s"

text \<open>
  The field pattern \<open>^[a-z0-9-]+$\<close> of \<open>ProjectMeta.id\<close>: one or more characters, each a
  lower-case ASCII letter, an ASCII digit or a hyphen.
\<close>

definition id_pattern_char :: "char \<Rightarrow> bool" where
  "id_pattern_char c =
     (let n = ord c in (97 \<le> n \<and> n \<le> 122) \<or> (48 \<le> n \<and> n \<le> 57) \<or> c = CHR ''-'')"

definition id_pattern :: "string \<Rightarrow> bool" where
  "id_pattern s = (s \<noteq> [] \<and> list_all id_pattern_char s)"


text \<open>\<open>s.split("/")\<close>: the pieces between the separators, empty pieces included.\<close>

fun split_slash :: "string \<Rightarrow> string list" where
  "split_slash [] = [[]]"
| "split_slash (c # cs) =
     (if c = CHR ''/'' then [] # split_slash cs
      else (case split_slash cs of [] \<Rightarrow> [[c]] | x # xs \<Rightarrow> (c # x) # xs))"

section \<open>Data model\<close>

text \<open>
  A reading of the clock, \<open>datetime.utcnow()\<close>, is a number of microseconds. A \<open>datetime\<close>
  is naive, as every reading of \<open>utcnow\<close> is, or aware: then it is a point in time (in
  microseconds, UTC) with its offset in minutes. pydantic accepts both for a \<open>datetime\<close>
  field. Python orders two naive and two aware values, by \<open>instant\<close>, and raises
  \<open>TypeError\<close> when it is asked to order a naive and an aware one.

  The field \<open>id\<close> of \<open>ProjectMeta\<close> is written \<open>id'\<close>, and the fields of the other records
  carry a prefix where two records have a field of the same name.
\<close>

type_synonym timestamp = nat

datatype datetime = Naive timestamp | Aware timestamp int

fun is_aware :: "datetime \<Rightarrow> bool" where
  "is_aware (Naive t) = False"
| "is_aware (Aware t off) = True"

fun instant :: "datetime \<Rightarrow> timestamp" where
  "instant (Naive t) = t"
| "instant (Aware t off) = t"

datatype ProjectStatus = ACTIVE | PAUSED | ARCHIVED

record ProjectRules =
  allow_cross_project_access :: bool
  llm_edit_scope :: string
  max_llm_edit_size :: int

record ProjectMeta =
  id' :: string
  name :: string
  created_at :: datetime
  last_opened_at :: "datetime option"
  description :: string
  status :: ProjectStatus
  rules :: ProjectRules

record ChatMessage =
  msg_id :: string
  msg_timestamp :: datetime
  role :: string
  content :: string

record Conversation =
  conversation_id :: string
  conv_created_at :: datetime
  messages :: "ChatMessage list"

datatype os_error = FileNotFoundError | FileExistsError | NotADirectoryError | IsADirectoryError

text \<open>
  The exceptions of the service. \<open>ValueError\<close> is the one \<open>create_project\<close> raises for a
  bad identifier; \<open>ValidationError\<close> is pydantic's (in Python a subclass of \<open>ValueError\<close>,
  raised by the model constructor); \<open>TypeError\<close> is raised by \<open>ProjectMeta(**data)\<close> when
  \<open>data\<close> is not a mapping, and by \<open>sorted\<close> when two keys cannot be ordered;
  \<open>YAMLError\<close> by \<open>yaml.safe_load\<close>.
\<close>

datatype error =
    ValueError
  | ProjectExistsError
  | ProjectNotFoundError
  | ValidationError
  | TypeError
  | YAMLError
  | OSError os_error

subsection \<open>Structured data, as YAML and JSON files hold it\<close>

text \<open>
  The value that \<open>model_dump(mode="json")\<close> builds and that \<open>yaml.safe_load\<close> returns.
  A scalar stands for what the validator of its field reads from it: \<open>DTime d\<close> is any
  scalar that pydantic's \<open>datetime\<close> validator reads as \<open>d\<close> (the ISO 8601 string that
  \<open>model_dump\<close> writes, with or without an offset, or a YAML timestamp), and likewise for
  booleans and integers.
\<close>

datatype data =
    DNull
  | DBool bool
  | DInt int
  | DStr string
  | DTime datetime
  | DList "data list"
  | DMap "(string \<times> data) list"

definition status_value :: "ProjectStatus \<Rightarrow> string" where
  "status_value s = (case s of ACTIVE \<Rightarrow> ''active'' | PAUSED \<Rightarrow> ''paused'' | ARCHIVED \<Rightarrow> ''archived'')"

definition ProjectRules_dump :: "ProjectRules \<Rightarrow> data" where
  "ProjectRules_dump r =
     DMap [(''allow_cross_project_access'', DBool (allow_cross_project_access r)),
           (''llm_edit_scope'', DStr (llm_edit_scope r)),
           (''max_llm_edit_size'', DInt (max_llm_edit_size r))]"

text \<open>\<open>meta.model_dump(mode="json")\<close>: every field, in declaration order.\<close>

definition ProjectMeta_dump :: "ProjectMeta \<Rightarrow> data" where
  "ProjectMeta_dump m =
     DMap [(''id'', DStr (id' m)),
           (''name'', DStr (name m)),
           (''created_at'', DTime (created_at m)),
           (''last_opened_at'', (case last_opened_at m of None \<Rightarrow> DNull | Some t \<Rightarrow> DTime t)),
           (''description'', DStr (description m)),
           (''status'', DStr (status_value (status m))),
           (''rules'', ProjectRules_dump (rules m))]"

definition ChatMessage_dump :: "ChatMessage \<Rightarrow> data" where
  "ChatMessage_dump c =
     DMap [(''id'', DStr (msg_id c)),
           (''timestamp'', DTime (msg_timestamp c)),
           (''role'', DStr (role c)),
           (''content'', DStr (content c))]"

definition Conversation_dump :: "Conversation \<Rightarrow> data" where
  "Conversation_dump c =
     DMap [(''conversation_id'', DStr (conversation_id c)),
           (''created_at'', DTime (conv_created_at c)),
           (''messages'', DList (map ChatMessage_dump (messages c)))]"

subsection \<open>Validation on construction\<close>

fun as_str :: "data \<Rightarrow> string option" where
  "as_str (DStr s) = Some s"
| "as_str _ = None"

fun as_bool :: "data \<Rightarrow> bool option" where
  "as_bool (DBool b) = Some b"
| "as_bool _ = None"

fun as_int :: "data \<Rightarrow> int option" where
  "as_int (DInt i) = Some i"
| "as_int _ = None"

fun as_datetime :: "data \<Rightarrow> datetime option" where
  "as_datetime (DTime d) = Some d"
| "as_datetime _ = None"

fun as_optional_datetime :: "data \<Rightarrow> datetime option option" where
  "as_optional_datetime DNull = Some None"
| "as_optional_datetime (DTime d) = Some (Some d)"
| "as_optional_datetime _ = None"

fun as_status :: "data \<Rightarrow> ProjectStatus option" where
  "as_status (DStr s) =
     (if s = ''active'' then Some ACTIVE
      else if s = ''paused'' then Some PAUSED
      else if s = ''archived'' then Some ARCHIVED
      else None)"
| "as_status _ = None"

text \<open>\<open>Field(..., pattern=r"^[a-z0-9-]+$")\<close> and \<open>Field(..., min_length=1, max_length=100)\<close>.\<close>

definition as_id :: "data \<Rightarrow> string option" where
  "as_id d = (case as_str d of Some s \<Rightarrow> (if id_pattern s then Some s else None) | None \<Rightarrow> None)"

definition as_name :: "data \<Rightarrow> string option" where
  "as_name d =
     (case as_str d of
        Some s \<Rightarrow> (if 1 \<le> length s \<and> length s \<le> 100 then Some s else None)
      | None \<Rightarrow> None)"

text \<open>
  A required field (\<open>Field(...)\<close>) must be among the keyword arguments; a field with a
  default takes the default when its key is missing. Keys that name no field are ignored.
\<close>

definition required :: "(data \<Rightarrow> 'a option) \<Rightarrow> (string \<times> data) list \<Rightarrow> string \<Rightarrow> 'a option" where
  "required v kw k = (case map_of kw k of None \<Rightarrow> None | Some d \<Rightarrow> v d)"

definition optional :: "(data \<Rightarrow> 'a option) \<Rightarrow> 'a \<Rightarrow> (string \<times> data) list \<Rightarrow> string \<Rightarrow> 'a option" where
  "optional v dflt kw k = (case map_of kw k of None \<Rightarrow> Some dflt | Some d \<Rightarrow> v d)"

definition default_rules :: ProjectRules where
  "default_rules =
     \<lparr>allow_cross_project_access = False, llm_edit_scope = ''markdown_only'', max_llm_edit_size = 500\<rparr>"

fun as_rules :: "data \<Rightarrow> ProjectRules option" where
  "as_rules (DMap kw) =
     (case optional as_bool False kw ''allow_cross_project_access'' of None \<Rightarrow> None | Some a \<Rightarrow>
      case optional as_str ''markdown_only'' kw ''llm_edit_scope'' of None \<Rightarrow> None | Some s \<Rightarrow>
      case optional as_int 500 kw ''max_llm_edit_size'' of None \<Rightarrow> None | Some n \<Rightarrow>
        Some \<lparr>allow_cross_project_access = a, llm_edit_scope = s, max_llm_edit_size = n\<rparr>)"
| "as_rules _ = None"

text \<open>
  \<open>ProjectMeta(**kw)\<close>. \<open>now\<close> is what \<open>datetime.utcnow\<close> reads during the call: the default
  factory of \<open>created_at\<close> takes it when the key is missing. Any field that fails makes
  the constructor raise \<open>ValidationError\<close>.
\<close>

definition ProjectMeta_new :: "timestamp \<Rightarrow> (string \<times> data) list \<Rightarrow> error + ProjectMeta" where
  "ProjectMeta_new now kw =
     (case required as_id kw ''id'' of None \<Rightarrow> Inl ValidationError | Some i \<Rightarrow>
      case required as_name kw ''name'' of None \<Rightarrow> Inl ValidationError | Some n \<Rightarrow>
      case optional as_datetime (Naive now) kw ''created_at'' of None \<Rightarrow> Inl ValidationError | Some c \<Rightarrow>
      case optional as_optional_datetime None kw ''last_opened_at'' of None \<Rightarrow> Inl ValidationError | Some l \<Rightarrow>
      case optional as_str '''' kw ''description'' of None \<Rightarrow> Inl ValidationError | Some d \<Rightarrow>
      case optional as_status ACTIVE kw ''status'' of None \<Rightarrow> Inl ValidationError | Some s \<Rightarrow>
      case optional as_rules default_rules kw ''rules'' of None \<Rightarrow> Inl ValidationError | Some r \<Rightarrow>
        Inr \<lparr>id' = i, name = n, created_at = c, last_opened_at = l, description = d,
             status = s, rules = r\<rparr>)"

text \<open>\<open>ProjectMeta(**data)\<close> on a loaded document: \<open>**\<close> needs a mapping.\<close>

fun ProjectMeta_of_data :: "timestamp \<Rightarrow> data \<Rightarrow> error + ProjectMeta" where
  "ProjectMeta_of_data now (DMap kw) = ProjectMeta_new now kw"
| "ProjectMeta_of_data now _ = Inl TypeError"

section \<open>The file system\<close>

text \<open>
  The state is the file system, a directory tree from its root. A directory holds its
  entries by name; the first entry of a name is the one a path reaches. Symbolic links
  and permissions are not modelled.

  A file holds either text (\<open>f.write(s)\<close>) or a document: YAML or JSON text, given by the
  value that the loader reads from it. What \<open>yaml.dump\<close> and \<open>json.dump\<close> write for a
  value is the document of that value.
\<close>

type_synonym path = "string list"

datatype file_content = Text string | Doc data

datatype node = File file_content | Dir "(string \<times> node) list"

subsection \<open>Resolved paths\<close>

text \<open>
  A resolved path is the list of the names from the root to a place, with no \<open>..\<close> in it.
  The functions of this part take a resolved path.
\<close>

fun lookup :: "node \<Rightarrow> path \<Rightarrow> node option" where
  "lookup n [] = Some n"
| "lookup (File c) (x # xs) = None"
| "lookup (Dir es) (x # xs) = (case map_of es x of None \<Rightarrow> None | Some n \<Rightarrow> lookup n xs)"

datatype stat = IsFile file_content | IsDir

definition stat :: "node \<Rightarrow> path \<Rightarrow> stat option" where
  "stat fs p =
     (case lookup fs p of
        None \<Rightarrow> None
      | Some (File c) \<Rightarrow> Some (IsFile c)
      | Some (Dir es) \<Rightarrow> Some IsDir)"

definition path_exists :: "node \<Rightarrow> path \<Rightarrow> bool" where
  "path_exists fs p = (stat fs p \<noteq> None)"

definition is_dir :: "node \<Rightarrow> path \<Rightarrow> bool" where
  "is_dir fs p = (stat fs p = Some IsDir)"

text \<open>
  Making a directory with its parents where they are missing; a directory that is
  already there is left as it is; a file on the way is an error, and nothing is created
  then.
\<close>

fun mkdir_parents :: "node \<Rightarrow> path \<Rightarrow> os_error + node" where
  "mkdir_parents (Dir es) [] = Inr (Dir es)"
| "mkdir_parents (File c) [] = Inl FileExistsError"
| "mkdir_parents (File c) (x # xs) = Inl NotADirectoryError"
| "mkdir_parents (Dir es) (x # xs) =
     (case mkdir_parents (case map_of es x of None \<Rightarrow> Dir [] | Some n \<Rightarrow> n) xs of
        Inl e \<Rightarrow> Inl e
      | Inr n' \<Rightarrow> Inr (Dir (AList.update x n' es)))"

text \<open>
  Making a directory in an existing one: the parent must be a directory; the last
  component is created unless it is a directory already.
\<close>

fun mkdir_exist_ok :: "node \<Rightarrow> path \<Rightarrow> os_error + node" where
  "mkdir_exist_ok (Dir es) [] = Inr (Dir es)"
| "mkdir_exist_ok (File c) [] = Inl FileExistsError"
| "mkdir_exist_ok (File c) (x # xs) = Inl NotADirectoryError"
| "mkdir_exist_ok (Dir es) (x # xs) =
     (case map_of es x of
        None \<Rightarrow> if xs = [] then Inr (Dir (AList.update x (Dir []) es)) else Inl FileNotFoundError
      | Some n \<Rightarrow>
          (case mkdir_exist_ok n xs of
             Inl e \<Rightarrow> Inl e
           | Inr n' \<Rightarrow> Inr (Dir (AList.update x n' es))))"

text \<open>Writing a whole file: it is created in an existing directory, or replaced.\<close>

fun write_file :: "node \<Rightarrow> path \<Rightarrow> file_content \<Rightarrow> os_error + node" where
  "write_file (File c0) [] c = Inr (File c)"
| "write_file (Dir es) [] c = Inl IsADirectoryError"
| "write_file (File c0) (x # xs) c = Inl NotADirectoryError"
| "write_file (Dir es) (x # xs) c =
     (case map_of es x of
        None \<Rightarrow> if xs = [] then Inr (Dir (AList.update x (File c) es)) else Inl FileNotFoundError
      | Some n \<Rightarrow>
          (case write_file n xs c of
             Inl e \<Rightarrow> Inl e
           | Inr n' \<Rightarrow> Inr (Dir (AList.update x n' es))))"

text \<open>Reading a whole file.\<close>

fun read_file :: "node \<Rightarrow> path \<Rightarrow> os_error + file_content" where
  "read_file (File c) [] = Inr c"
| "read_file (Dir es) [] = Inl IsADirectoryError"
| "read_file (File c) (x # xs) = Inl NotADirectoryError"
| "read_file (Dir es) (x # xs) =
     (case map_of es x of None \<Rightarrow> Inl FileNotFoundError | Some n \<Rightarrow> read_file n xs)"

text \<open>
  The names in a directory, each once. A name is not empty, is not \<open>.\<close> or \<open>..\<close> and has
  no separator in it; nothing else in the tree is an entry.
\<close>

definition entry_name :: "string \<Rightarrow> bool" where
  "entry_name x = (x \<noteq> [] \<and> x \<noteq> ''.'' \<and> x \<noteq> ''..'' \<and> CHR ''/'' \<notin> set x)"

definition listdir :: "node \<Rightarrow> path \<Rightarrow> os_error + string list" where
  "listdir fs p =
     (case lookup fs p of
        None \<Rightarrow> Inl FileNotFoundError
      | Some (File c) \<Rightarrow> Inl NotADirectoryError
      | Some (Dir es) \<Rightarrow> Inr (filter entry_name (remdups (map fst es))))"

subsection \<open>Paths as \<open>pathlib\<close> builds them and the system resolves them\<close>

text \<open>
  A \<open>Path\<close> is absolute here: the list of its components from the root. \<open>p / s\<close> takes
  the components of \<open>s\<close>, which are the pieces between the separators but for the empty
  ones and \<open>.\<close>; when \<open>s\<close> begins with a separator they replace \<open>p\<close>. A component \<open>..\<close>
  stays in the path.
\<close>

definition parts :: "string \<Rightarrow> string list" where
  "parts s = filter (\<lambda>x. x \<noteq> [] \<and> x \<noteq> ''.'') (split_slash s)"

definition is_absolute :: "string \<Rightarrow> bool" where
  "is_absolute s = (case s of [] \<Rightarrow> False | c # cs \<Rightarrow> c = CHR ''/'')"

definition joinpath :: "path \<Rightarrow> string \<Rightarrow> path" where
  "joinpath p s = (if is_absolute s then parts s else p @ parts s)"

text \<open>
  The system resolves a path from the root, one component at a time: \<open>..\<close> needs the
  place reached so far to be a directory and leads to its parent, the root being its own
  parent. The last argument of \<open>realpath_from\<close> is what is left of the path, the one
  before the place reached so far.
\<close>

fun realpath_from :: "node \<Rightarrow> path \<Rightarrow> path \<Rightarrow> os_error + path" where
  "realpath_from fs cur [] = Inr cur"
| "realpath_from fs cur (c # cs) =
     (if c = ''..'' then
        (case stat fs cur of
           Some IsDir \<Rightarrow> realpath_from fs (butlast cur) cs
         | Some (IsFile f) \<Rightarrow> Inl NotADirectoryError
         | None \<Rightarrow> (case read_file fs cur of Inl e \<Rightarrow> Inl e | Inr f \<Rightarrow> Inl FileNotFoundError))
      else realpath_from fs (cur @ [c]) cs)"

definition resolve :: "node \<Rightarrow> path \<Rightarrow> os_error + path" where
  "resolve fs p = realpath_from fs [] p"

text \<open>
  \<open>Path.exists()\<close>, \<open>Path.is_dir()\<close>, \<open>Path.iterdir()\<close>, \<open>open(p)\<close> with a read of the whole
  file, and \<open>open(p, "w")\<close> with one write of the whole content.
\<close>

definition Path_exists :: "node \<Rightarrow> path \<Rightarrow> bool" where
  "Path_exists fs p = (case resolve fs p of Inl e \<Rightarrow> False | Inr q \<Rightarrow> path_exists fs q)"

definition Path_is_dir :: "node \<Rightarrow> path \<Rightarrow> bool" where
  "Path_is_dir fs p = (case resolve fs p of Inl e \<Rightarrow> False | Inr q \<Rightarrow> is_dir fs q)"

definition Path_iterdir :: "node \<Rightarrow> path \<Rightarrow> os_error + path list" where
  "Path_iterdir fs p =
     (case resolve fs p of
        Inl e \<Rightarrow> Inl e
      | Inr q \<Rightarrow>
          (case listdir fs q of
             Inl e \<Rightarrow> Inl e
           | Inr names \<Rightarrow> Inr (map (\<lambda>x. p @ [x]) names)))"

definition open_read :: "node \<Rightarrow> path \<Rightarrow> os_error + file_content" where
  "open_read fs p = (case resolve fs p of Inl e \<Rightarrow> Inl e | Inr q \<Rightarrow> read_file fs q)"

definition open_write :: "node \<Rightarrow> path \<Rightarrow> file_content \<Rightarrow> os_error + node" where
  "open_write fs p c = (case resolve fs p of Inl e \<Rightarrow> Inl e | Inr q \<Rightarrow> write_file fs q c)"

text \<open>
  \<open>Path.mkdir(parents=True, exist_ok=True)\<close> and \<open>Path.mkdir(exist_ok=True)\<close>. The service
  makes directories only at \<open>FORGE_ROOT\<close>, which exists, followed by names (an identifier
  that has passed its check is a name): every \<open>..\<close> of such a path lies in the part that
  exists, and \<open>pathlib\<close>, which makes the missing parents from the top, makes what
  \<open>mkdir_parents\<close> makes at the resolved path.
\<close>

definition Path_mkdir_parents :: "node \<Rightarrow> path \<Rightarrow> os_error + node" where
  "Path_mkdir_parents fs p = (case resolve fs p of Inl e \<Rightarrow> Inl e | Inr q \<Rightarrow> mkdir_parents fs q)"

definition Path_mkdir_exist_ok :: "node \<Rightarrow> path \<Rightarrow> os_error + node" where
  "Path_mkdir_exist_ok fs p = (case resolve fs p of Inl e \<Rightarrow> Inl e | Inr q \<Rightarrow> mkdir_exist_ok fs q)"

text \<open>
  \<open>yaml.safe_load\<close> on the content of a file. What the loader makes of a text is not
  modelled: it is the parameter \<open>yaml\<close>, any function from a text to a value or to the
  exception raised. A document loads as its value.
\<close>

fun safe_load :: "(string \<Rightarrow> error + data) \<Rightarrow> file_content \<Rightarrow> error + data" where
  "safe_load yaml (Doc d) = Inr d"
| "safe_load yaml (Text s) = yaml s"

text \<open>\<open>with open(p) as f: data = yaml.safe_load(f)\<close>.\<close>

definition load_yaml :: "(string \<Rightarrow> error + data) \<Rightarrow> node \<Rightarrow> path \<Rightarrow> error + data" where
  "load_yaml yaml fs p = (case open_read fs p of Inl e \<Rightarrow> Inl (OSError e) | Inr c \<Rightarrow> safe_load yaml c)"

section \<open>Configuration and paths\<close>

text \<open>
  \<open>FORGE_ROOT\<close> is the resolved directory that holds the package; it depends on where the
  package is installed and is a parameter of all that follows.
\<close>

definition PROJECTS_ROOT :: "path \<Rightarrow> path" where
  "PROJECTS_ROOT FORGE_ROOT = FORGE_ROOT @ [''projects'']"

definition PROJECT_DIRS :: "string list" where
  "PROJECT_DIRS = [''docs'', ''chat'', ''meta'', ''history'']"

text \<open>\<open>PROJECTS_ROOT / project_id\<close>, and the folders of a project, each by its one name.\<close>

definition get_project_path :: "path \<Rightarrow> string \<Rightarrow> path" where
  "get_project_path FORGE_ROOT project_id = joinpath (PROJECTS_ROOT FORGE_ROOT) project_id"

definition get_project_docs_path :: "path \<Rightarrow> string \<Rightarrow> path" where
  "get_project_docs_path FORGE_ROOT project_id = get_project_path FORGE_ROOT project_id @ [''docs'']"

definition get_project_chat_path :: "path \<Rightarrow> string \<Rightarrow> path" where
  "get_project_chat_path FORGE_ROOT project_id = get_project_path FORGE_ROOT project_id @ [''chat'']"

definition get_project_meta_path :: "path \<Rightarrow> string \<Rightarrow> path" where
  "get_project_meta_path FORGE_ROOT project_id = get_project_path FORGE_ROOT project_id @ [''meta'']"

definition get_project_history_path :: "path \<Rightarrow> string \<Rightarrow> path" where
  "get_project_history_path FORGE_ROOT project_id = get_project_path FORGE_ROOT project_id @ [''history'']"

definition project_exists :: "path \<Rightarrow> node \<Rightarrow> string \<Rightarrow> bool" where
  "project_exists FORGE_ROOT fs project_id = Path_is_dir fs (get_project_path FORGE_ROOT project_id)"

section \<open>The project service\<close>

definition NL :: string where
  "NL = [CHR 0x0A]"

text \<open>The template of \<open>meta/summary.md\<close>; the intent is the description, or a placeholder.\<close>

definition summary_template :: "string \<Rightarrow> string" where
  "summary_template description =
     ''# Project Summary'' @ NL @ NL @
     ''## Intent'' @ NL @
     (if description \<noteq> [] then description
      else ''[Describe what this project is trying to achieve]'') @ NL @ NL @
     ''## Current Focus'' @ NL @
     ''[What are you working on right now?]'' @ NL @ NL @
     ''## Constraints'' @ NL @
     ''- [List any hard constraints or rules]'' @ NL @ NL @
     ''## Open Questions'' @ NL @
     ''- [What decisions are pending?]'' @ NL @ NL @
     ''## Last Known Good State'' @ NL @
     ''[What was working last time you touched this?]'' @ NL @ NL @
     ''## Notes to Future Me'' @ NL @
     ''[Anything you'' @ [CHR 0x27] @ ''ll forget but shouldn'' @ [CHR 0x27] @ ''t]'' @ NL"
  for description

text \<open>
  The loop \<open>for dir_name in PROJECT_DIRS: (project_path / dir_name).mkdir(...)\<close>: it stops
  at the first error, with the directories made so far in place.
\<close>

fun mkdir_each :: "node \<Rightarrow> path list \<Rightarrow> os_error option \<times> node" where
  "mkdir_each fs [] = (None, fs)"
| "mkdir_each fs (p # ps) =
     (case Path_mkdir_parents fs p of
        Inl e \<Rightarrow> (Some e, fs)
      | Inr fs' \<Rightarrow> mkdir_each fs' ps)"

text \<open>
  Every operation takes the file system and returns its result, a value or the exception
  raised, with the file system as the call leaves it. \<open>now\<close> and \<open>now'\<close> are the two
  readings of \<open>datetime.utcnow()\<close> in \<open>create_project\<close>, in the order of the calls.
\<close>

definition create_project ::
  "path \<Rightarrow> timestamp \<Rightarrow> timestamp \<Rightarrow> string \<Rightarrow> string \<Rightarrow> string \<Rightarrow> node \<Rightarrow>
   (error + ProjectMeta) \<times> node" where
  "create_project FORGE_ROOT now now' project_id name description fs =
     (if project_id = [] \<or> \<not> isalnum (replace_hyphens project_id) then (Inl ValueError, fs)
      else if project_id \<noteq> lower project_id then (Inl ValueError, fs)
      else if project_exists FORGE_ROOT fs project_id then (Inl ProjectExistsError, fs)
      else
        let project_path = get_project_path FORGE_ROOT project_id in
        case mkdir_each fs (map (\<lambda>dir_name. project_path @ [dir_name]) PROJECT_DIRS) of
          (Some e, fs1) \<Rightarrow> (Inl (OSError e), fs1)
        | (None, fs1) \<Rightarrow>
        case Path_mkdir_exist_ok fs1 (get_project_history_path FORGE_ROOT project_id @ [''docs'']) of
          Inl e \<Rightarrow> (Inl (OSError e), fs1)
        | Inr fs2 \<Rightarrow>
        case Path_mkdir_exist_ok fs2 (get_project_history_path FORGE_ROOT project_id @ [''meta'']) of
          Inl e \<Rightarrow> (Inl (OSError e), fs2)
        | Inr fs3 \<Rightarrow>
        case ProjectMeta_new now
               [(''id'', DStr project_id), (''name'', DStr name),
                (''description'', DStr description), (''created_at'', DTime (Naive now))] of
          Inl e \<Rightarrow> (Inl e, fs3)
        | Inr meta \<Rightarrow>
        case open_write fs3 (get_project_meta_path FORGE_ROOT project_id @ [''project.yaml''])
               (Doc (ProjectMeta_dump meta)) of
          Inl e \<Rightarrow> (Inl (OSError e), fs3)
        | Inr fs4 \<Rightarrow>
        case open_write fs4 (get_project_meta_path FORGE_ROOT project_id @ [''summary.md''])
               (Text (summary_template description)) of
          Inl e \<Rightarrow> (Inl (OSError e), fs4)
        | Inr fs5 \<Rightarrow>
        let conversation =
              \<lparr>conversation_id = ''main'', conv_created_at = Naive now', messages = []\<rparr> in
        case open_write fs5 (get_project_chat_path FORGE_ROOT project_id @ [''main.json''])
               (Doc (Conversation_dump conversation)) of
          Inl e \<Rightarrow> (Inl (OSError e), fs5)
        | Inr fs6 \<Rightarrow>
        case open_write fs6 (get_project_docs_path FORGE_ROOT project_id @ [''index.md''])
               (Text (''# '' @ name @ NL @ NL @ description @ NL)) of
          Inl e \<Rightarrow> (Inl (OSError e), fs6)
        | Inr fs7 \<Rightarrow> (Inr meta, fs7))"
  for name description

text \<open>
  The body of the loop of \<open>list_projects\<close> over the paths of \<open>iterdir\<close>: an entry that is
  no directory or has no \<open>meta/project.yaml\<close> is passed over, and so is one whose file
  raises any exception while it is read, loaded or validated. The whole listing reads the
  clock as \<open>now\<close>.
\<close>

fun load_projects ::
  "(string \<Rightarrow> error + data) \<Rightarrow> timestamp \<Rightarrow> node \<Rightarrow> path list \<Rightarrow> ProjectMeta list" where
  "load_projects yaml now fs [] = []"
| "load_projects yaml now fs (p # ps) =
     (if \<not> Path_is_dir fs p then load_projects yaml now fs ps
      else
        let meta_file = p @ [''meta'', ''project.yaml''] in
        if \<not> Path_exists fs meta_file then load_projects yaml now fs ps
        else
          case load_yaml yaml fs meta_file of
            Inl e \<Rightarrow> load_projects yaml now fs ps
          | Inr d \<Rightarrow>
              (case ProjectMeta_of_data now d of
                 Inl e \<Rightarrow> load_projects yaml now fs ps
               | Inr m \<Rightarrow> m # load_projects yaml now fs ps))"

text \<open>The sort key \<open>p.last_opened_at or p.created_at\<close>; a \<open>datetime\<close> is always true.\<close>

definition sort_key_of :: "ProjectMeta \<Rightarrow> datetime" where
  "sort_key_of p = (case last_opened_at p of Some t \<Rightarrow> t | None \<Rightarrow> created_at p)"

text \<open>
  \<open>sorted(xs, key=k, reverse=True)\<close> on keys that are \<open>datetime\<close>s. When a naive and an
  aware key are both there, the sort compares two such keys at some point, whatever its
  order of comparisons (no other outcome tells it their order), and that comparison raises
  \<open>TypeError\<close>. Otherwise the keys are ordered by \<open>instant\<close>; the sort is stable and keeps
  the given order among equal keys: Python reverses the list, sorts it in ascending order,
  and reverses it again.
\<close>

definition mixed :: "datetime list \<Rightarrow> bool" where
  "mixed ds = (list_ex is_aware ds \<and> list_ex (\<lambda>d. \<not> is_aware d) ds)"

definition sorted_reverse :: "('a \<Rightarrow> datetime) \<Rightarrow> 'a list \<Rightarrow> error + 'a list" where
  "sorted_reverse k xs =
     (if mixed (map k xs) then Inl TypeError
      else Inr (rev (sort_key (\<lambda>x. instant (k x)) (rev xs))))"

definition list_projects ::
  "path \<Rightarrow> (string \<Rightarrow> error + data) \<Rightarrow> timestamp \<Rightarrow> node \<Rightarrow> (error + ProjectMeta list) \<times> node" where
  "list_projects FORGE_ROOT yaml now fs =
     (if \<not> Path_exists fs (PROJECTS_ROOT FORGE_ROOT) then (Inr [], fs)
      else
        case Path_iterdir fs (PROJECTS_ROOT FORGE_ROOT) of
          Inl e \<Rightarrow> (Inl (OSError e), fs)
        | Inr paths \<Rightarrow> (sorted_reverse sort_key_of (load_projects yaml now fs paths), fs))"

text \<open>
  \<open>now\<close> is the reading of the clock inside \<open>ProjectMeta(**data)\<close>, \<open>now'\<close> the later one
  that becomes \<open>last_opened_at\<close>.
\<close>

definition open_project ::
  "path \<Rightarrow> (string \<Rightarrow> error + data) \<Rightarrow> timestamp \<Rightarrow> timestamp \<Rightarrow> string \<Rightarrow> node \<Rightarrow>
   (error + ProjectMeta) \<times> node" where
  "open_project FORGE_ROOT yaml now now' project_id fs =
     (if \<not> project_exists FORGE_ROOT fs project_id then (Inl ProjectNotFoundError, fs)
      else
        let meta_path = get_project_meta_path FORGE_ROOT project_id @ [''project.yaml''] in
        case load_yaml yaml fs meta_path of
          Inl e \<Rightarrow> (Inl e, fs)
        | Inr d \<Rightarrow>
        case ProjectMeta_of_data now d of
          Inl e \<Rightarrow> (Inl e, fs)
        | Inr meta0 \<Rightarrow>
        let meta = meta0\<lparr>last_opened_at := Some (Naive now')\<rparr> in
        case open_write fs meta_path (Doc (ProjectMeta_dump meta)) of
          Inl e \<Rightarrow> (Inl (OSError e), fs)
        | Inr fs' \<Rightarrow> (Inr meta, fs'))"

definition get_project ::
  "path \<Rightarrow> (string \<Rightarrow> error + data) \<Rightarrow> timestamp \<Rightarrow> string \<Rightarrow> node \<Rightarrow>
   (error + ProjectMeta) \<times> node" where
  "get_project FORGE_ROOT yaml now project_id fs =
     (if \<not> project_exists FORGE_ROOT fs project_id then (Inl ProjectNotFoundError, fs)
      else
        let meta_path = get_project_meta_path FORGE_ROOT project_id @ [''project.yaml''] in
        case load_yaml yaml fs meta_path of
          Inl e \<Rightarrow> (Inl e, fs)
        | Inr d \<Rightarrow> (ProjectMeta_of_data now d, fs))"

section \<open>Notions used in the statements\<close>

text \<open>The identifier passes the two checks at the head of \<open>create_project\<close>.\<close>

definition id_check_passes :: "string \<Rightarrow> bool" where
  "id_check_passes project_id =
     (project_id \<noteq> [] \<and> isalnum (replace_hyphens project_id) \<and> project_id = lower project_id)"

text \<open>A path with no \<open>..\<close> in it, as \<open>FORGE_ROOT\<close> is.\<close>

definition plain :: "path \<Rightarrow> bool" where
  "plain p = (''..'' \<notin> set p)"

text \<open>
  The project can be created: \<open>FORGE_ROOT\<close> is a resolved path and a directory, the
  projects root is a directory or does not exist yet, and nothing exists at the project's
  path.
\<close>

definition creatable :: "path \<Rightarrow> node \<Rightarrow> string \<Rightarrow> bool" where
  "creatable FORGE_ROOT fs project_id =
     (plain FORGE_ROOT \<and> Path_is_dir fs FORGE_ROOT \<and>
      (Path_is_dir fs (PROJECTS_ROOT FORGE_ROOT) \<or> \<not> Path_exists fs (PROJECTS_ROOT FORGE_ROOT)) \<and>
      \<not> Path_exists fs (get_project_path FORGE_ROOT project_id))"

text \<open>The directories of a project, as \<open>create_project\<close> makes them.\<close>

definition project_tree :: "path \<Rightarrow> string \<Rightarrow> path list" where
  "project_tree FORGE_ROOT project_id =
     [get_project_path FORGE_ROOT project_id,
      get_project_docs_path FORGE_ROOT project_id,
      get_project_chat_path FORGE_ROOT project_id,
      get_project_meta_path FORGE_ROOT project_id,
      get_project_history_path FORGE_ROOT project_id,
      get_project_history_path FORGE_ROOT project_id @ [''docs''],
      get_project_history_path FORGE_ROOT project_id @ [''meta'']]"

text \<open>The names of the entries of the projects root, in the order \<open>iterdir\<close> gives them.\<close>

definition project_names :: "path \<Rightarrow> node \<Rightarrow> string list" where
  "project_names FORGE_ROOT fs =
     (case resolve fs (PROJECTS_ROOT FORGE_ROOT) of
        Inl e \<Rightarrow> []
      | Inr q \<Rightarrow> (case listdir fs q of Inl e \<Rightarrow> [] | Inr names \<Rightarrow> names))"

text \<open>The metadata of the project in the directory of that name loads and validates.\<close>

definition loads :: "path \<Rightarrow> (string \<Rightarrow> error + data) \<Rightarrow> timestamp \<Rightarrow> node \<Rightarrow> string \<Rightarrow> bool" where
  "loads FORGE_ROOT yaml now fs n = (\<not> isl (fst (get_project FORGE_ROOT yaml now n fs)))"

text \<open>
  The record of such an entry (none when its metadata does not load), and the records of
  all the entries of the projects root, in the order of the entries.
\<close>

definition record_of ::
  "path \<Rightarrow> (string \<Rightarrow> error + data) \<Rightarrow> timestamp \<Rightarrow> node \<Rightarrow> string \<Rightarrow> ProjectMeta list" where
  "record_of FORGE_ROOT yaml now fs n =
     (case fst (get_project FORGE_ROOT yaml now n fs) of Inl e \<Rightarrow> [] | Inr m \<Rightarrow> [m])"

definition stored_projects ::
  "path \<Rightarrow> (string \<Rightarrow> error + data) \<Rightarrow> timestamp \<Rightarrow> node \<Rightarrow> ProjectMeta list" where
  "stored_projects FORGE_ROOT yaml now fs =
     concat (map (record_of FORGE_ROOT yaml now fs) (project_names FORGE_ROOT fs))"


text \<open>Every directory of the first file system is a directory of the second.\<close>

definition keeps_dirs :: "node \<Rightarrow> node \<Rightarrow> bool" where
  "keeps_dirs fs fs' = (\<forall>q. is_dir fs q \<longrightarrow> is_dir fs' q)"


text \<open>
  What a record has of a stored mapping: its field is the value under the key, or, when
  the mapping has no such key, the default of the field (\<open>is_default\<close> says that the field
  has it). The last argument is for a required field \<open>False\<close>.
\<close>

definition stored_as :: "(string \<times> data) list \<Rightarrow> string \<Rightarrow> data \<Rightarrow> bool \<Rightarrow> bool" where
  "stored_as kw k d is_default = (case map_of kw k of Some d' \<Rightarrow> d' = d | None \<Rightarrow> is_default)"

definition stored_rules :: "(string \<times> data) list \<Rightarrow> ProjectRules \<Rightarrow> bool" where
  "stored_rules kw r =
     (case map_of kw ''rules'' of
        None \<Rightarrow> r = default_rules
      | Some (DMap rw) \<Rightarrow>
          stored_as rw ''allow_cross_project_access'' (DBool (allow_cross_project_access r))
            (allow_cross_project_access r = False) \<and>
          stored_as rw ''llm_edit_scope'' (DStr (llm_edit_scope r))
            (llm_edit_scope r = ''markdown_only'') \<and>
          stored_as rw ''max_llm_edit_size'' (DInt (max_llm_edit_size r))
            (max_llm_edit_size r = 500)
      | Some _ \<Rightarrow> False)"

text \<open>
  Every field of the record \<open>m\<close> is the one that the mapping \<open>kw\<close> holds; \<open>now\<close> is the
  reading of the clock that a missing \<open>created_at\<close> takes.
\<close>

definition stored_record :: "timestamp \<Rightarrow> (string \<times> data) list \<Rightarrow> ProjectMeta \<Rightarrow> bool" where
  "stored_record now kw m =
     (stored_as kw ''id'' (DStr (id' m)) False \<and>
      stored_as kw ''name'' (DStr (name m)) False \<and>
      stored_as kw ''created_at'' (DTime (created_at m)) (created_at m = Naive now) \<and>
      stored_as kw ''last_opened_at''
        (case last_opened_at m of None \<Rightarrow> DNull | Some t \<Rightarrow> DTime t) (last_opened_at m = None) \<and>
      stored_as kw ''description'' (DStr (description m)) (description m = []) \<and>
      stored_as kw ''status'' (DStr (status_value (status m))) (status m = ACTIVE) \<and>
      stored_rules kw (rules m))"

section \<open>Examples\<close>

text \<open>The package lies in \<open>/forge\<close>, which is empty at first.\<close>

definition example_root :: path where
  "example_root = [''forge'']"

definition empty_forge :: node where
  "empty_forge = Dir [(''forge'', Dir [])]"

text \<open>The directories of a new project \<open>test-project\<close>, with no file in them.\<close>

definition test_project_dirs :: node where
  "test_project_dirs =
     Dir [(''forge'', Dir [(''projects'', Dir [(''test-project'',
       Dir [(''docs'', Dir []), (''chat'', Dir []), (''meta'', Dir []),
            (''history'', Dir [(''docs'', Dir []), (''meta'', Dir [])])])])])]"

definition example_meta :: "string \<Rightarrow> string \<Rightarrow> datetime \<Rightarrow> datetime option \<Rightarrow> ProjectMeta" where
  "example_meta i n c l =
     \<lparr>id' = i, name = n, created_at = c, last_opened_at = l, description = [],
      status = ACTIVE, rules = default_rules\<rparr>"

text \<open>
  The metadata files of the examples hold two texts, and on them \<open>yaml.safe_load\<close> does
  this: \<open>{\<close> is no YAML document, and \<open>to do\<close> is a plain scalar, a string. No example
  loads another text; what this loader gives for one is of no account.
\<close>

definition example_yaml :: "string \<Rightarrow> error + data" where
  "example_yaml s = (if s = ''to do'' then Inr (DStr ''to do'') else Inl YAMLError)"

text \<open>
  A projects root: three projects whose metadata loads, a plain file, a directory with
  no metadata file, one whose \<open>project.yaml\<close> cannot be read (it is a directory), one
  whose file is no YAML document, one whose document is a string and no mapping, and one
  whose document fails validation (its id has an upper-case letter). All times are naive.
\<close>

definition example_fs :: node where
  "example_fs =
     Dir [(''forge'', Dir [(''projects'', Dir
       [(''alpha'', Dir [(''meta'', Dir [(''project.yaml'', File (Doc (DMap
            [(''id'', DStr ''alpha''), (''name'', DStr ''Alpha''), (''created_at'', DTime (Naive 5)),
             (''last_opened_at'', DTime (Naive 7))])))])]),
        (''beta'', Dir [(''meta'', Dir [(''project.yaml'', File (Doc (DMap
            [(''id'', DStr ''beta''), (''name'', DStr ''Beta''), (''created_at'', DTime (Naive 6))])))])]),
        (''gamma'', Dir [(''meta'', Dir [(''project.yaml'', File (Doc (DMap
            [(''id'', DStr ''gamma''), (''name'', DStr ''Gamma''), (''created_at'', DTime (Naive 9)),
             (''last_opened_at'', DNull)])))])]),
        (''notes.txt'', File (Text ''to do'')),
        (''empty'', Dir []),
        (''unreadable'', Dir [(''meta'', Dir [(''project.yaml'', Dir [])])]),
        (''broken'', Dir [(''meta'', Dir [(''project.yaml'', File (Text ''{''))])]),
        (''scalar'', Dir [(''meta'', Dir [(''project.yaml'', File (Text ''to do''))])]),
        (''invalid'', Dir [(''meta'', Dir [(''project.yaml'', File (Doc (DMap
            [(''id'', DStr ''Invalid''), (''name'', DStr ''Invalid'')])))])])])])]"

text \<open>
  A projects root with two projects, both valid: the \<open>created_at\<close> of the first is
  naive, as \<open>create_project\<close> writes it; that of the second has the offset \<open>+00:00\<close>.
\<close>

definition mixed_fs :: node where
  "mixed_fs =
     Dir [(''forge'', Dir [(''projects'', Dir
       [(''alpha'', Dir [(''meta'', Dir [(''project.yaml'', File (Doc (DMap
            [(''id'', DStr ''alpha''), (''name'', DStr ''Alpha''),
             (''created_at'', DTime (Naive 5))])))])]),
        (''beta'', Dir [(''meta'', Dir [(''project.yaml'', File (Doc (DMap
            [(''id'', DStr ''beta''), (''name'', DStr ''Beta''),
             (''created_at'', DTime (Aware 6 0))])))])])])])]"

text \<open>A project \<open>demo\<close> whose metadata file holds four of the seven fields.\<close>

definition demo_kw :: "(string \<times> data) list" where
  "demo_kw = [(''id'', DStr ''demo''), (''name'', DStr ''Demo''),
              (''created_at'', DTime (Naive 5)), (''last_opened_at'', DTime (Naive 7))]"

definition demo_fs :: node where
  "demo_fs =
     Dir [(''forge'', Dir [(''projects'', Dir [(''demo'', Dir [(''meta'',
       Dir [(''project.yaml'', File (Doc (DMap demo_kw)))])])])])]"

text \<open>A project directory \<open>draft\<close> with an empty \<open>meta\<close> folder.\<close>

definition draft_fs :: node where
  "draft_fs = Dir [(''forge'', Dir [(''projects'', Dir [(''draft'', Dir [(''meta'', Dir [])])])])]"

section \<open>Properties of the string tests\<close>

lemma ord_hyphen: "ord (CHR ''-'') = 45"
  by (simp add: ord_def)

lemma id_pattern_char_isalnum: "id_pattern_char c \<Longrightarrow> c \<noteq> CHR ''-'' \<Longrightarrow> isalnum_char c"
  by (auto simp: id_pattern_char_def isalnum_char_def Let_def)

lemma id_pattern_char_lower: "id_pattern_char c \<Longrightarrow> lower_char c = c"
  by (auto simp: id_pattern_char_def lower_char_def Let_def ord_hyphen)

lemma id_pattern_lower: "id_pattern s \<Longrightarrow> lower s = s"
  by (simp add: id_pattern_def lower_def list_all_iff id_pattern_char_lower map_idI)

lemma id_pattern_isalnum:
  assumes "id_pattern s" and "\<exists>c\<in>set s. c \<noteq> CHR ''-''"
  shows "isalnum (replace_hyphens s)"
proof -
  have "replace_hyphens s \<noteq> []"
    using assms(2) by (auto simp: replace_hyphens_def filter_empty_conv)
  moreover have "list_all isalnum_char (replace_hyphens s)"
    using assms(1)
    by (auto simp: id_pattern_def replace_hyphens_def list_all_iff id_pattern_char_isalnum)
  ultimately show ?thesis by (simp add: isalnum_def)
qed


lemma isalnum_char_no_sep: "isalnum_char c \<Longrightarrow> c \<noteq> CHR ''/'' \<and> c \<noteq> CHR ''.''"
  by (auto simp: isalnum_char_def ord_def Let_def)

lemma id_check_chars:
  assumes "id_check_passes s" and "c \<in> set s"
  shows "c = CHR ''-'' \<or> isalnum_char c"
  using assms
  by (auto simp: id_check_passes_def isalnum_def replace_hyphens_def list_all_iff)

lemma split_slash_no_sep: "CHR ''/'' \<notin> set s \<Longrightarrow> split_slash s = [s]"
  by (induction s) auto

lemma joinpath_entry_name: "entry_name x \<Longrightarrow> joinpath p x = p @ [x]"
  by (cases x) (auto simp: entry_name_def joinpath_def is_absolute_def parts_def split_slash_no_sep)

lemma id_check_entry_name:
  assumes "id_check_passes s"
  shows "entry_name s"
proof -
  have c: "c \<noteq> CHR ''/'' \<and> c \<noteq> CHR ''.''" if "c \<in> set s" for c
    using id_check_chars [OF assms that] isalnum_char_no_sep [of c] by auto
  from assms have "s \<noteq> []" by (simp add: id_check_passes_def)
  moreover have "CHR ''/'' \<notin> set s" using c by blast
  moreover have "CHR ''.'' \<notin> set s" using c by blast
  then have "s \<noteq> ''.''" and "s \<noteq> ''..''" by auto
  ultimately show ?thesis by (simp add: entry_name_def)
qed

lemma joinpath_checked_id:
  "id_check_passes project_id \<Longrightarrow> joinpath p project_id = p @ [project_id]"
  by (simp add: id_check_entry_name joinpath_entry_name)

section \<open>Properties of the file system\<close>

lemma stat_Nil: "stat fs [] = (case fs of File c \<Rightarrow> Some (IsFile c) | Dir es \<Rightarrow> Some IsDir)"
  by (simp add: stat_def)

lemma stat_File_Cons: "stat (File c) (x # xs) = None"
  by (simp add: stat_def)

lemma stat_Dir_Cons: "stat (Dir es) (x # xs) = (case map_of es x of None \<Rightarrow> None | Some n \<Rightarrow> stat n xs)"
  by (simp add: stat_def split: option.splits)

lemmas stat_simps = stat_Nil stat_File_Cons stat_Dir_Cons

lemma stat_None_append: "stat fs p = None \<Longrightarrow> stat fs (p @ q) = None"
proof (induction p arbitrary: fs)
  case Nil
  then show ?case by (simp add: stat_simps split: node.splits)
next
  case (Cons x xs)
  then show ?case by (cases fs) (auto simp: stat_simps split: option.splits)
qed

lemma stat_file_append: "stat fs p = Some (IsFile c) \<Longrightarrow> q \<noteq> [] \<Longrightarrow> stat fs (p @ q) = None"
proof (induction p arbitrary: fs)
  case Nil
  then show ?case by (cases q; cases fs) (auto simp: stat_simps)
next
  case (Cons x xs)
  then show ?case by (cases fs) (auto simp: stat_simps split: option.splits)
qed

lemma stat_append_is_dir: "stat fs (p @ q) \<noteq> None \<Longrightarrow> q \<noteq> [] \<Longrightarrow> is_dir fs p"
  unfolding is_dir_def
  by (metis stat_None_append stat_file_append stat.exhaust option.exhaust)

lemma mkdir_parents_stat:
  "mkdir_parents fs p = Inr fs' \<Longrightarrow> stat fs' q = (if prefix q p then Some IsDir else stat fs q)"
proof (induction p arbitrary: fs fs' q)
  case Nil
  then show ?case by (cases fs) (auto simp: stat_simps)
next
  case (Cons x xs)
  show ?case
  proof (cases fs)
    case (File c)
    with Cons.prems show ?thesis by simp
  next
    case (Dir es)
    define n0 where "n0 = (case map_of es x of None \<Rightarrow> Dir [] | Some n \<Rightarrow> n)"
    from Cons.prems Dir obtain n' where n': "mkdir_parents n0 xs = Inr n'"
      and fs': "fs' = Dir (AList.update x n' es)"
      by (auto simp: n0_def split: sum.splits)
    have IH: "\<And>r. stat n' r = (if prefix r xs then Some IsDir else stat n0 r)"
      using Cons.IH [OF n'] .
    show ?thesis
    proof (cases q)
      case Nil
      then show ?thesis by (simp add: fs' stat_simps)
    next
      case (Cons y ys)
      show ?thesis
      proof (cases "y = x")
        case True
        have "\<not> prefix ys xs \<Longrightarrow> map_of es x = None \<Longrightarrow> stat n0 ys = None"
          by (cases ys) (auto simp: n0_def stat_simps)
        then show ?thesis
          using True Cons Dir IH [of ys]
          by (auto simp: fs' stat_simps update_conv' n0_def split: option.splits)
      next
        case False
        then show ?thesis
          using Cons Dir by (simp add: fs' stat_simps update_conv')
      qed
    qed
  qed
qed

lemma mkdir_parents_ok:
  "is_dir fs [] \<Longrightarrow> \<forall>q c. prefix q p \<longrightarrow> stat fs q \<noteq> Some (IsFile c) \<Longrightarrow> \<exists>fs'. mkdir_parents fs p = Inr fs'"
proof (induction p arbitrary: fs)
  case Nil
  then show ?case by (cases fs) (auto simp: is_dir_def stat_simps)
next
  case (Cons x xs)
  from Cons.prems(1) obtain es where Dir: "fs = Dir es"
    by (cases fs) (auto simp: is_dir_def stat_simps)
  define n0 where "n0 = (case map_of es x of None \<Rightarrow> Dir [] | Some n \<Rightarrow> n)"
  have nofile: "\<And>r c. prefix r xs \<Longrightarrow> stat n0 r \<noteq> Some (IsFile c)"
  proof -
    fix r c assume r: "prefix r xs"
    show "stat n0 r \<noteq> Some (IsFile c)"
    proof (cases "map_of es x")
      case None
      then show ?thesis by (cases r) (auto simp: n0_def stat_simps)
    next
      case (Some n)
      from r have "prefix (x # r) (x # xs)" by simp
      with Cons.prems(2) have "stat fs (x # r) \<noteq> Some (IsFile c)" by blast
      with Some Dir show ?thesis by (simp add: n0_def stat_simps)
    qed
  qed
  have "is_dir n0 []"
    using nofile [of "[]"] by (cases n0) (auto simp: is_dir_def stat_simps)
  with nofile Cons.IH [of n0] obtain n' where "mkdir_parents n0 xs = Inr n'" by blast
  then show ?case by (simp add: Dir n0_def)
qed

lemma mkdir_exist_ok_stat:
  "mkdir_exist_ok fs p = Inr fs' \<Longrightarrow> stat fs' q = (if q = p then Some IsDir else stat fs q)"
proof (induction p arbitrary: fs fs' q)
  case Nil
  then show ?case by (cases fs) (auto simp: stat_simps)
next
  case (Cons x xs)
  show ?case
  proof (cases fs)
    case (File c)
    with Cons.prems show ?thesis by simp
  next
    case (Dir es)
    show ?thesis
    proof (cases "map_of es x")
      case None
      with Cons.prems Dir have xs: "xs = []" and fs': "fs' = Dir (AList.update x (Dir []) es)"
        by (auto split: if_splits)
      show ?thesis
      proof (cases q)
        case Nil
        then show ?thesis using Dir by (simp add: fs' stat_simps)
      next
        case (Cons y ys)
        then show ?thesis using None Dir xs
          by (cases ys) (auto simp: fs' stat_simps update_conv')
      qed
    next
      case (Some n)
      with Cons.prems Dir obtain n' where n': "mkdir_exist_ok n xs = Inr n'"
        and fs': "fs' = Dir (AList.update x n' es)"
        by (auto split: sum.splits)
      show ?thesis
      proof (cases q)
        case Nil
        then show ?thesis using Dir by (simp add: fs' stat_simps)
      next
        case (Cons y ys)
        then show ?thesis using Some Dir Cons.IH [OF n', of ys]
          by (auto simp: fs' stat_simps update_conv')
      qed
    qed
  qed
qed

lemma mkdir_exist_ok_ok:
  "is_dir fs d \<Longrightarrow> stat fs (d @ [x]) = None \<or> stat fs (d @ [x]) = Some IsDir \<Longrightarrow>
   \<exists>fs'. mkdir_exist_ok fs (d @ [x]) = Inr fs'"
proof (induction d arbitrary: fs)
  case Nil
  then show ?case
    by (cases fs) (auto simp: is_dir_def stat_simps split: option.splits node.splits)
next
  case (Cons y ys)
  from Cons.prems(1) obtain es n where Dir: "fs = Dir es" and n: "map_of es y = Some n"
    and d: "is_dir n ys"
    by (cases fs) (auto simp: is_dir_def stat_simps split: option.splits)
  from Cons.prems(2) have "stat n (ys @ [x]) = None \<or> stat n (ys @ [x]) = Some IsDir"
    by (simp add: Dir n stat_simps)
  with Cons.IH [OF d] obtain n' where "mkdir_exist_ok n (ys @ [x]) = Inr n'" by blast
  then show ?case by (simp add: Dir n)
qed

lemma write_file_stat:
  "write_file fs p c = Inr fs' \<Longrightarrow> stat fs' q = (if q = p then Some (IsFile c) else stat fs q)"
proof (induction p arbitrary: fs fs' q)
  case Nil
  then show ?case by (cases fs; cases q) (auto simp: stat_simps)
next
  case (Cons x xs)
  show ?case
  proof (cases fs)
    case (File c0)
    with Cons.prems show ?thesis by simp
  next
    case (Dir es)
    show ?thesis
    proof (cases "map_of es x")
      case None
      with Cons.prems Dir have xs: "xs = []" and fs': "fs' = Dir (AList.update x (File c) es)"
        by (auto split: if_splits)
      show ?thesis
      proof (cases q)
        case Nil
        then show ?thesis using Dir by (simp add: fs' stat_simps)
      next
        case (Cons y ys)
        then show ?thesis using None Dir xs
          by (cases ys) (auto simp: fs' stat_simps update_conv')
      qed
    next
      case (Some n)
      with Cons.prems Dir obtain n' where n': "write_file n xs c = Inr n'"
        and fs': "fs' = Dir (AList.update x n' es)"
        by (auto split: sum.splits)
      show ?thesis
      proof (cases q)
        case Nil
        then show ?thesis using Dir by (simp add: fs' stat_simps)
      next
        case (Cons y ys)
        then show ?thesis using Some Dir Cons.IH [OF n', of ys]
          by (auto simp: fs' stat_simps update_conv')
      qed
    qed
  qed
qed

lemma write_file_ok:
  "is_dir fs d \<Longrightarrow> stat fs (d @ [x]) \<noteq> Some IsDir \<Longrightarrow> \<exists>fs'. write_file fs (d @ [x]) c = Inr fs'"
proof (induction d arbitrary: fs)
  case Nil
  then show ?case
    by (cases fs) (auto simp: is_dir_def stat_simps split: option.splits node.splits)
next
  case (Cons y ys)
  from Cons.prems(1) obtain es n where Dir: "fs = Dir es" and n: "map_of es y = Some n"
    and d: "is_dir n ys"
    by (cases fs) (auto simp: is_dir_def stat_simps split: option.splits)
  from Cons.prems(2) have "stat n (ys @ [x]) \<noteq> Some IsDir"
    by (simp add: Dir n stat_simps)
  with Cons.IH [OF d] obtain n' where "write_file n (ys @ [x]) c = Inr n'" by blast
  then show ?case by (simp add: Dir n)
qed

lemma read_file_stat: "read_file fs p = Inr c \<longleftrightarrow> stat fs p = Some (IsFile c)"
proof (induction p arbitrary: fs)
  case Nil
  then show ?case by (cases fs) (auto simp: stat_simps)
next
  case (Cons x xs)
  then show ?case by (cases fs) (auto simp: stat_simps split: option.splits)
qed


lemma read_file_missing: "stat fs p = None \<Longrightarrow> \<exists>e. read_file fs p = Inl e"
  by (cases "read_file fs p") (auto simp: read_file_stat)

lemma write_file_not_dir: "write_file fs p c = Inr fs' \<Longrightarrow> stat fs p \<noteq> Some IsDir"
proof (induction p arbitrary: fs fs')
  case Nil
  then show ?case by (cases fs) (auto simp: stat_simps)
next
  case (Cons x xs)
  then show ?case
    by (cases fs) (auto simp: stat_simps split: option.splits sum.splits if_splits)
qed

lemma mkdir_parents_keeps_dirs: "mkdir_parents fs p = Inr fs' \<Longrightarrow> keeps_dirs fs fs'"
  by (simp add: keeps_dirs_def is_dir_def mkdir_parents_stat)

lemma mkdir_exist_ok_keeps_dirs: "mkdir_exist_ok fs p = Inr fs' \<Longrightarrow> keeps_dirs fs fs'"
  by (simp add: keeps_dirs_def is_dir_def mkdir_exist_ok_stat)

lemma write_file_keeps_dirs: "write_file fs p c = Inr fs' \<Longrightarrow> keeps_dirs fs fs'"
  using write_file_not_dir [of fs p c fs']
  by (auto simp: keeps_dirs_def is_dir_def write_file_stat)

subsection \<open>Resolution\<close>

lemma realpath_from_plain: "plain p \<Longrightarrow> realpath_from fs cur p = Inr (cur @ p)"
  by (induction p arbitrary: cur) (auto simp: plain_def)

lemma resolve_plain: "plain p \<Longrightarrow> resolve fs p = Inr p"
  by (simp add: resolve_def realpath_from_plain)

lemma realpath_from_append:
  "realpath_from fs cur (p @ q) =
     (case realpath_from fs cur p of Inl e \<Rightarrow> Inl e | Inr r \<Rightarrow> realpath_from fs r q)"
  by (induction p arbitrary: cur) (auto split: option.splits stat.splits sum.splits)

lemma resolve_append_plain:
  "plain q \<Longrightarrow>
   resolve fs (p @ q) = (case resolve fs p of Inl e \<Rightarrow> Inl e | Inr r \<Rightarrow> Inr (r @ q))"
  by (simp add: resolve_def realpath_from_append realpath_from_plain split: sum.splits)

lemma realpath_from_keeps:
  "keeps_dirs fs fs' \<Longrightarrow> realpath_from fs cur p = Inr q \<Longrightarrow> realpath_from fs' cur p = Inr q"
proof (induction p arbitrary: cur)
  case Nil
  then show ?case by simp
next
  case (Cons c cs)
  show ?case
  proof (cases "c = ''..''")
    case True
    with Cons.prems(2) have d: "stat fs cur = Some IsDir"
      and r: "realpath_from fs (butlast cur) cs = Inr q"
      by (auto split: option.splits stat.splits sum.splits)
    from d Cons.prems(1) have "stat fs' cur = Some IsDir"
      by (simp add: keeps_dirs_def is_dir_def)
    with True Cons.IH [OF Cons.prems(1) r] show ?thesis by simp
  next
    case False
    with Cons.prems(2) have "realpath_from fs (cur @ [c]) cs = Inr q" by simp
    with False Cons.IH [OF Cons.prems(1)] show ?thesis by simp
  qed
qed

lemma resolve_keeps: "keeps_dirs fs fs' \<Longrightarrow> resolve fs p = Inr q \<Longrightarrow> resolve fs' p = Inr q"
  unfolding resolve_def by (rule realpath_from_keeps)

lemma Path_is_dir_keeps: "keeps_dirs fs fs' \<Longrightarrow> Path_is_dir fs p \<Longrightarrow> Path_is_dir fs' p"
proof -
  assume k: "keeps_dirs fs fs'" and d: "Path_is_dir fs p"
  from d obtain q where q: "resolve fs p = Inr q" and "is_dir fs q"
    by (auto simp: Path_is_dir_def split: sum.splits)
  with k have "is_dir fs' q" by (simp add: keeps_dirs_def)
  with resolve_keeps [OF k q] show ?thesis by (simp add: Path_is_dir_def)
qed

lemma keeps_dirs_refl: "keeps_dirs fs fs"
  by (simp add: keeps_dirs_def)

lemma keeps_dirs_trans: "keeps_dirs fs fs' \<Longrightarrow> keeps_dirs fs' fs'' \<Longrightarrow> keeps_dirs fs fs''"
  by (simp add: keeps_dirs_def)

subsection \<open>The operations on paths\<close>

lemma Path_plain:
  assumes "plain p"
  shows "Path_exists fs p = path_exists fs p"
    and "Path_is_dir fs p = is_dir fs p"
    and "open_read fs p = read_file fs p"
    and "open_write fs p c = write_file fs p c"
    and "Path_mkdir_parents fs p = mkdir_parents fs p"
    and "Path_mkdir_exist_ok fs p = mkdir_exist_ok fs p"
  using assms
  by (simp_all add: Path_exists_def Path_is_dir_def open_read_def open_write_def
      Path_mkdir_parents_def Path_mkdir_exist_ok_def resolve_plain)

lemma Path_mkdir_parents_keeps: "Path_mkdir_parents fs p = Inr fs' \<Longrightarrow> keeps_dirs fs fs'"
  by (auto simp: Path_mkdir_parents_def mkdir_parents_keeps_dirs split: sum.splits)

lemma Path_mkdir_exist_ok_keeps: "Path_mkdir_exist_ok fs p = Inr fs' \<Longrightarrow> keeps_dirs fs fs'"
  by (auto simp: Path_mkdir_exist_ok_def mkdir_exist_ok_keeps_dirs split: sum.splits)

lemma open_write_keeps: "open_write fs p c = Inr fs' \<Longrightarrow> keeps_dirs fs fs'"
  by (auto simp: open_write_def write_file_keeps_dirs split: sum.splits)

lemma Path_mkdir_parents_parent:
  assumes "Path_mkdir_parents fs (p @ [x]) = Inr fs'" and "x \<noteq> ''..''"
  shows "Path_is_dir fs' p"
proof -
  from assms(2) have "plain [x]" by (simp add: plain_def)
  with assms(1) obtain q where q: "resolve fs p = Inr q"
    and m: "mkdir_parents fs (q @ [x]) = Inr fs'"
    by (auto simp: Path_mkdir_parents_def resolve_append_plain split: sum.splits)
  from mkdir_parents_stat [OF m, of q] have "is_dir fs' q" by (simp add: is_dir_def)
  moreover from resolve_keeps [OF mkdir_parents_keeps_dirs [OF m] q]
  have "resolve fs' p = Inr q" .
  ultimately show ?thesis by (simp add: Path_is_dir_def)
qed

lemma open_read_Inr:
  "open_read fs p = Inr c \<longleftrightarrow> (\<exists>q. resolve fs p = Inr q \<and> stat fs q = Some (IsFile c))"
  by (auto simp: open_read_def read_file_stat split: sum.splits)

lemma open_read_missing: "\<not> Path_exists fs p \<Longrightarrow> \<exists>e. open_read fs p = Inl e"
  using read_file_missing
  by (auto simp: Path_exists_def open_read_def path_exists_def split: sum.splits)

lemma load_yaml_read: "open_read fs p = Inr c \<Longrightarrow> load_yaml yaml fs p = safe_load yaml c"
  by (simp add: load_yaml_def)

lemma load_yaml_missing: "\<not> Path_exists fs p \<Longrightarrow> \<exists>e. load_yaml yaml fs p = Inl (OSError e)"
  using open_read_missing [of fs p] by (auto simp: load_yaml_def)

lemma load_yaml_Inr:
  "load_yaml yaml fs p = Inr d \<Longrightarrow> \<exists>c. open_read fs p = Inr c \<and> safe_load yaml c = Inr d"
  by (auto simp: load_yaml_def split: sum.splits)

text \<open>A file below a path that resolves: the path leads to a directory.\<close>

lemma open_read_below:
  assumes "open_read fs (p @ q) = Inr c" and "plain q" and "q \<noteq> []"
  shows "Path_is_dir fs p"
proof -
  from assms(1,2) obtain r where r: "resolve fs p = Inr r"
    and s: "stat fs (r @ q) = Some (IsFile c)"
    by (auto simp: open_read_Inr resolve_append_plain split: sum.splits)
  from s assms(3) have "is_dir fs r" by (intro stat_append_is_dir [of fs r q]) simp_all
  with r show ?thesis by (simp add: Path_is_dir_def)
qed

section \<open>Properties of validation\<close>

lemma as_status_value: "as_status (DStr (status_value s)) = Some s"
  by (cases s) (simp_all add: status_value_def)

lemma as_rules_dump: "as_rules (ProjectRules_dump r) = Some r"
  by (simp add: ProjectRules_dump_def optional_def)

lemma ProjectMeta_roundtrip:
  "id_pattern (id' m) \<Longrightarrow> 1 \<le> length (name m) \<Longrightarrow> length (name m) \<le> 100 \<Longrightarrow>
   ProjectMeta_of_data now (ProjectMeta_dump m) = Inr m"
  by (cases "last_opened_at m")
     (simp_all add: ProjectMeta_dump_def ProjectMeta_new_def required_def optional_def
        as_id_def as_name_def as_status_value as_rules_dump del: as_status.simps)

lemma ProjectMeta_new_valid:
  "ProjectMeta_new now kw = Inr m \<Longrightarrow> id_pattern (id' m) \<and> 1 \<le> length (name m) \<and> length (name m) \<le> 100"
  by (auto simp: ProjectMeta_new_def required_def as_id_def as_name_def
      split: option.splits if_splits)

lemma ProjectMeta_of_data_valid:
  "ProjectMeta_of_data now d = Inr m \<Longrightarrow>
   id_pattern (id' m) \<and> 1 \<le> length (name m) \<and> length (name m) \<le> 100"
  by (cases d) (auto dest: ProjectMeta_new_valid)

lemma ProjectMeta_new_create:
  "id_pattern project_id \<Longrightarrow> 1 \<le> length name \<Longrightarrow> length name \<le> 100 \<Longrightarrow>
   ProjectMeta_new now [(''id'', DStr project_id), (''name'', DStr name),
       (''description'', DStr description), (''created_at'', DTime (Naive now))] =
   Inr \<lparr>id' = project_id, name = name, created_at = Naive now, last_opened_at = None,
        description = description, status = ACTIVE, rules = default_rules\<rparr>"
  for name description
  by (simp add: ProjectMeta_new_def required_def optional_def as_id_def as_name_def)

lemma ProjectMeta_new_bad_name:
  "\<not> (1 \<le> length name \<and> length name \<le> 100) \<Longrightarrow>
   ProjectMeta_new now [(''id'', DStr project_id), (''name'', DStr name),
       (''description'', DStr description), (''created_at'', DTime (Naive now))] = Inl ValidationError"
  for name description
  by (auto simp: ProjectMeta_new_def required_def optional_def as_id_def as_name_def split: option.splits)

section \<open>Properties of the service\<close>

subsection \<open>Steps below a directory\<close>

lemma prefix_of_dir:
  assumes "is_dir fs R" and "prefix q R"
  shows "stat fs q = Some IsDir"
proof -
  from assms(2) obtain zs where R: "R = q @ zs" by (auto simp: prefix_def)
  show ?thesis
  proof (cases "zs = []")
    case True
    with assms(1) R show ?thesis by (simp add: is_dir_def)
  next
    case False
    with assms(1) R stat_append_is_dir [of fs q zs] show ?thesis
      by (simp add: is_dir_def)
  qed
qed

lemma mkdir_parents_below:
  assumes "is_dir fs R"
    and "\<forall>ys\<in>set (prefixes xs). \<forall>c. stat fs (R @ ys) \<noteq> Some (IsFile c)"
  shows "\<exists>fs'. mkdir_parents fs (R @ xs) = Inr fs' \<and>
           (\<forall>ys. stat fs' (R @ ys) =
              (if ys \<in> set (prefixes xs) then Some IsDir else stat fs (R @ ys)))"
proof -
  have "is_dir fs []"
    using prefix_of_dir [OF assms(1), of "[]"] by (simp add: is_dir_def)
  moreover have "\<forall>q c. prefix q (R @ xs) \<longrightarrow> stat fs q \<noteq> Some (IsFile c)"
  proof (intro allI impI)
    fix q c assume "prefix q (R @ xs)"
    then consider "prefix q R" | us where "q = R @ us" "prefix us xs"
      by (auto simp: prefix_append)
    then show "stat fs q \<noteq> Some (IsFile c)"
    proof cases
      case 1
      with prefix_of_dir [OF assms(1)] show ?thesis by simp
    next
      case 2
      with assms(2) show ?thesis by (simp add: in_set_prefixes)
    qed
  qed
  ultimately obtain fs' where m: "mkdir_parents fs (R @ xs) = Inr fs'"
    using mkdir_parents_ok by blast
  have "\<forall>ys. stat fs' (R @ ys) =
              (if ys \<in> set (prefixes xs) then Some IsDir else stat fs (R @ ys))"
    by (simp add: mkdir_parents_stat [OF m] in_set_prefixes)
  with m show ?thesis by blast
qed

lemma mkdir_exist_ok_below:
  assumes "stat fs (R @ d) = Some IsDir"
    and "stat fs (R @ d @ [x]) = None \<or> stat fs (R @ d @ [x]) = Some IsDir"
  shows "\<exists>fs'. mkdir_exist_ok fs (R @ d @ [x]) = Inr fs' \<and>
           (\<forall>ys. stat fs' (R @ ys) = (if ys = d @ [x] then Some IsDir else stat fs (R @ ys)))"
proof -
  from assms have "is_dir fs (R @ d)"
    and "stat fs ((R @ d) @ [x]) = None \<or> stat fs ((R @ d) @ [x]) = Some IsDir"
    by (simp_all add: is_dir_def)
  from mkdir_exist_ok_ok [OF this] obtain fs' where
    m: "mkdir_exist_ok fs (R @ d @ [x]) = Inr fs'" by auto
  have "\<forall>ys. stat fs' (R @ ys) = (if ys = d @ [x] then Some IsDir else stat fs (R @ ys))"
    by (simp add: mkdir_exist_ok_stat [OF m])
  with m show ?thesis by blast
qed

lemma write_file_below:
  assumes "stat fs (R @ d) = Some IsDir" and "stat fs (R @ d @ [x]) \<noteq> Some IsDir"
  shows "\<exists>fs'. write_file fs (R @ d @ [x]) c = Inr fs' \<and>
           (\<forall>ys. stat fs' (R @ ys) = (if ys = d @ [x] then Some (IsFile c) else stat fs (R @ ys)))"
proof -
  from assms have "is_dir fs (R @ d)" and "stat fs ((R @ d) @ [x]) \<noteq> Some IsDir"
    by (simp_all add: is_dir_def)
  from write_file_ok [OF this] obtain fs' where
    m: "write_file fs (R @ d @ [x]) c = Inr fs'" by auto
  have "\<forall>ys. stat fs' (R @ ys) = (if ys = d @ [x] then Some (IsFile c) else stat fs (R @ ys))"
    by (simp add: write_file_stat [OF m])
  with m show ?thesis by blast
qed

subsection \<open>Creating a project\<close>

lemmas path_defs = PROJECTS_ROOT_def PROJECT_DIRS_def
  get_project_docs_path_def get_project_chat_path_def get_project_meta_path_def
  get_project_history_path_def

lemma get_project_path_checked:
  "id_check_passes project_id \<Longrightarrow>
   get_project_path FORGE_ROOT project_id = FORGE_ROOT @ [''projects'', project_id]"
  by (simp add: get_project_path_def PROJECTS_ROOT_def joinpath_checked_id)

lemma checked_id_not_dotdot: "id_check_passes project_id \<Longrightarrow> project_id \<noteq> ''..''"
  using id_check_entry_name [of project_id] by (auto simp: entry_name_def)

text \<open>What \<open>creatable\<close> says of the resolved paths, for an identifier that passes the check.\<close>

lemma creatable_stat:
  assumes "creatable R fs project_id" and "id_check_passes project_id"
  shows "plain R" and "stat fs R = Some IsDir"
    and "\<And>c. stat fs (R @ [''projects'']) \<noteq> Some (IsFile c)"
    and "\<And>ys. stat fs (R @ ''projects'' # project_id # ys) = None"
proof -
  note P = get_project_path_checked [OF assms(2), of R]
  note ne = checked_id_not_dotdot [OF assms(2)]
  from assms(1) show pl: "plain R" by (simp add: creatable_def)
  then have p1: "plain (R @ [''projects''])" and p2: "plain (R @ [''projects'', project_id])"
    using ne by (simp_all add: plain_def)
  from assms(1) pl show "stat fs R = Some IsDir"
    by (simp add: creatable_def Path_plain is_dir_def)
  from assms(1) p1 show "\<And>c. stat fs (R @ [''projects'']) \<noteq> Some (IsFile c)"
    by (auto simp: creatable_def Path_plain is_dir_def path_exists_def PROJECTS_ROOT_def)
  from assms(1) p2 have "stat fs (R @ [''projects'', project_id]) = None"
    by (simp add: creatable_def Path_plain path_exists_def P)
  from stat_None_append [OF this] show "\<And>ys. stat fs (R @ ''projects'' # project_id # ys) = None"
    by simp
qed

lemma plain_below:
  "plain R \<Longrightarrow> id_check_passes project_id \<Longrightarrow> ''..'' \<notin> set ys \<Longrightarrow>
   plain (R @ ''projects'' # project_id # ys)"
  using checked_id_not_dotdot [of project_id] by (simp add: plain_def)

lemma create_directories:
  assumes ok: "creatable R fs project_id" and chk: "id_check_passes project_id"
  shows "\<exists>fs1 fs2 fs3.
           mkdir_each fs (map (\<lambda>dir_name. get_project_path R project_id @ [dir_name]) PROJECT_DIRS) = (None, fs1) \<and>
           Path_mkdir_exist_ok fs1 (get_project_history_path R project_id @ [''docs'']) = Inr fs2 \<and>
           Path_mkdir_exist_ok fs2 (get_project_history_path R project_id @ [''meta'']) = Inr fs3 \<and>
           (\<forall>ys. stat fs3 (R @ ys) =
              (if ys \<in> set (prefixes [''projects'', project_id]) \<or>
                  ys \<in> set (map (\<lambda>zs. ''projects'' # project_id # zs)
                     [[''docs''], [''chat''], [''meta''], [''history''],
                      [''history'', ''docs''], [''history'', ''meta'']])
               then Some IsDir else stat fs (R @ ys)))"
proof -
  let ?P = "[''projects'', project_id]"
  note P = get_project_path_checked [OF chk, of R]
  note cs = creatable_stat [OF ok chk]
  note pl = plain_below [OF cs(1) chk]
  from cs(2) have root: "is_dir fs R" and root': "stat fs (R @ []) = Some IsDir"
    by (simp_all add: is_dir_def)
  note pr = cs(3) and below = cs(4)
  obtain fsa where a: "mkdir_parents fs (R @ ?P @ [''docs'']) = Inr fsa"
    and sa: "\<And>ys. stat fsa (R @ ys) = (if ys \<in> set (prefixes (?P @ [''docs''])) then Some IsDir else stat fs (R @ ys))"
    using mkdir_parents_below [OF root, of "?P @ [''docs'']"] root' pr below
    by auto
  have da: "is_dir fsa R" using sa [of "[]"] by (simp add: is_dir_def)
  obtain fsb where b: "mkdir_parents fsa (R @ ?P @ [''chat'']) = Inr fsb"
    and sb: "\<And>ys. stat fsb (R @ ys) = (if ys \<in> set (prefixes (?P @ [''chat''])) then Some IsDir else stat fsa (R @ ys))"
    using mkdir_parents_below [OF da, of "?P @ [''chat'']"] sa below
    by auto
  have db: "is_dir fsb R" using sb [of "[]"] by (simp add: is_dir_def)
  obtain fsc where c: "mkdir_parents fsb (R @ ?P @ [''meta'']) = Inr fsc"
    and sc: "\<And>ys. stat fsc (R @ ys) = (if ys \<in> set (prefixes (?P @ [''meta''])) then Some IsDir else stat fsb (R @ ys))"
    using mkdir_parents_below [OF db, of "?P @ [''meta'']"] sa sb below
    by auto
  have dc: "is_dir fsc R" using sc [of "[]"] by (simp add: is_dir_def)
  obtain fs1 where d: "mkdir_parents fsc (R @ ?P @ [''history'']) = Inr fs1"
    and s1: "\<And>ys. stat fs1 (R @ ys) = (if ys \<in> set (prefixes (?P @ [''history''])) then Some IsDir else stat fsc (R @ ys))"
    using mkdir_parents_below [OF dc, of "?P @ [''history'']"] sa sb sc below
    by auto
  have each: "mkdir_each fs (map (\<lambda>dir_name. get_project_path R project_id @ [dir_name]) PROJECT_DIRS) = (None, fs1)"
    using a b c d pl by (simp add: P PROJECT_DIRS_def Path_plain)
  obtain fs2 where e: "mkdir_exist_ok fs1 (R @ (?P @ [''history'']) @ [''docs'']) = Inr fs2"
    and s2: "\<And>ys. stat fs2 (R @ ys) = (if ys = (?P @ [''history'']) @ [''docs''] then Some IsDir else stat fs1 (R @ ys))"
    using mkdir_exist_ok_below [of fs1 R "?P @ [''history'']" "''docs''"] sa sb sc s1 below
    by auto
  obtain fs3 where f: "mkdir_exist_ok fs2 (R @ (?P @ [''history'']) @ [''meta'']) = Inr fs3"
    and s3: "\<And>ys. stat fs3 (R @ ys) = (if ys = (?P @ [''history'']) @ [''meta''] then Some IsDir else stat fs2 (R @ ys))"
    using mkdir_exist_ok_below [of fs2 R "?P @ [''history'']" "''meta''"] sa sb sc s1 s2 below
    by auto
  have e': "Path_mkdir_exist_ok fs1 (get_project_history_path R project_id @ [''docs'']) = Inr fs2"
    using e pl by (simp add: P path_defs Path_plain)
  have f': "Path_mkdir_exist_ok fs2 (get_project_history_path R project_id @ [''meta'']) = Inr fs3"
    using f pl by (simp add: P path_defs Path_plain)
  have "\<forall>ys. stat fs3 (R @ ys) =
              (if ys \<in> set (prefixes [''projects'', project_id]) \<or>
                  ys \<in> set (map (\<lambda>zs. ''projects'' # project_id # zs)
                     [[''docs''], [''chat''], [''meta''], [''history''],
                      [''history'', ''docs''], [''history'', ''meta'']])
               then Some IsDir else stat fs (R @ ys))"
  proof
    fix ys
    show "stat fs3 (R @ ys) =
              (if ys \<in> set (prefixes [''projects'', project_id]) \<or>
                  ys \<in> set (map (\<lambda>zs. ''projects'' # project_id # zs)
                     [[''docs''], [''chat''], [''meta''], [''history''],
                      [''history'', ''docs''], [''history'', ''meta'']])
               then Some IsDir else stat fs (R @ ys))"
      unfolding s3 s2 s1 sc sb sa by auto
  qed
  with each e' f' show ?thesis by blast
qed


lemma creatable_not_exists:
  "creatable R fs project_id \<Longrightarrow> \<not> project_exists R fs project_id"
  by (auto simp: creatable_def project_exists_def Path_is_dir_def Path_exists_def
      is_dir_def path_exists_def split: sum.splits)

lemma create_project_created:
  fixes name :: string and description :: string
  assumes ok: "creatable R fs project_id" and chk: "id_check_passes project_id"
    and new: "ProjectMeta_new now
               [(''id'', DStr project_id), (''name'', DStr name),
                (''description'', DStr description), (''created_at'', DTime (Naive now))] = Inr meta"
  shows "\<exists>fs'. create_project R now now' project_id name description fs = (Inr meta, fs') \<and>
           (\<forall>q\<in>set (project_tree R project_id). Path_is_dir fs' q) \<and>
           open_read fs' (get_project_meta_path R project_id @ [''project.yaml'']) =
             Inr (Doc (ProjectMeta_dump meta))"
proof -
  let ?P = "[''projects'', project_id]"
  let ?M = "[''projects'', project_id, ''meta'']"
  let ?C = "[''projects'', project_id, ''chat'']"
  let ?D = "[''projects'', project_id, ''docs'']"
  let ?c4 = "Doc (ProjectMeta_dump meta)"
  let ?c5 = "Text (summary_template description)"
  let ?c6 = "Doc (Conversation_dump \<lparr>conversation_id = ''main'', conv_created_at = Naive now', messages = []\<rparr>)"
  let ?c7 = "Text (''# '' @ name @ NL @ NL @ description @ NL)"
  note P = get_project_path_checked [OF chk, of R]
  note cs = creatable_stat [OF ok chk]
  note pl = plain_below [OF cs(1) chk]
  note below = cs(4)
  from create_directories [OF ok chk] obtain fs1 fs2 fs3 where
    each: "mkdir_each fs (map (\<lambda>dir_name. get_project_path R project_id @ [dir_name]) PROJECT_DIRS) = (None, fs1)"
    and d2: "Path_mkdir_exist_ok fs1 (get_project_history_path R project_id @ [''docs'']) = Inr fs2"
    and d3: "Path_mkdir_exist_ok fs2 (get_project_history_path R project_id @ [''meta'']) = Inr fs3"
    and s3: "\<And>ys. stat fs3 (R @ ys) =
              (if ys \<in> set (prefixes [''projects'', project_id]) \<or>
                  ys \<in> set (map (\<lambda>zs. ''projects'' # project_id # zs)
                     [[''docs''], [''chat''], [''meta''], [''history''],
                      [''history'', ''docs''], [''history'', ''meta'']])
               then Some IsDir else stat fs (R @ ys))"
    by blast
  have pre4: "stat fs3 (R @ ?M) = Some IsDir" "stat fs3 (R @ ?M @ [''project.yaml'']) \<noteq> Some IsDir"
    by (simp_all add: s3 below)
  obtain fs4 where w4: "write_file fs3 (R @ ?M @ [''project.yaml'']) ?c4 = Inr fs4"
    and s4: "\<forall>ys. stat fs4 (R @ ys) =
        (if ys = ?M @ [''project.yaml''] then Some (IsFile ?c4) else stat fs3 (R @ ys))"
    using write_file_below [OF pre4] by blast
  have pre5: "stat fs4 (R @ ?M) = Some IsDir" "stat fs4 (R @ ?M @ [''summary.md'']) \<noteq> Some IsDir"
    by (simp_all add: s4 s3 below)
  obtain fs5 where w5: "write_file fs4 (R @ ?M @ [''summary.md'']) ?c5 = Inr fs5"
    and s5: "\<forall>ys. stat fs5 (R @ ys) =
        (if ys = ?M @ [''summary.md''] then Some (IsFile ?c5) else stat fs4 (R @ ys))"
    using write_file_below [OF pre5] by blast
  have pre6: "stat fs5 (R @ ?C) = Some IsDir" "stat fs5 (R @ ?C @ [''main.json'']) \<noteq> Some IsDir"
    by (simp_all add: s5 s4 s3 below)
  obtain fs6 where w6: "write_file fs5 (R @ ?C @ [''main.json'']) ?c6 = Inr fs6"
    and s6: "\<forall>ys. stat fs6 (R @ ys) =
        (if ys = ?C @ [''main.json''] then Some (IsFile ?c6) else stat fs5 (R @ ys))"
    using write_file_below [OF pre6] by blast
  have pre7: "stat fs6 (R @ ?D) = Some IsDir" "stat fs6 (R @ ?D @ [''index.md'']) \<noteq> Some IsDir"
    by (simp_all add: s6 s5 s4 s3 below)
  obtain fs7 where w7: "write_file fs6 (R @ ?D @ [''index.md'']) ?c7 = Inr fs7"
    and s7: "\<forall>ys. stat fs7 (R @ ys) =
        (if ys = ?D @ [''index.md''] then Some (IsFile ?c7) else stat fs6 (R @ ys))"
    using write_file_below [OF pre7] by blast
  have o4: "open_write fs3 (get_project_meta_path R project_id @ [''project.yaml'']) ?c4 = Inr fs4"
    using w4 pl by (simp add: P path_defs Path_plain)
  have o5: "open_write fs4 (get_project_meta_path R project_id @ [''summary.md'']) ?c5 = Inr fs5"
    using w5 pl by (simp add: P path_defs Path_plain)
  have o6: "open_write fs5 (get_project_chat_path R project_id @ [''main.json'']) ?c6 = Inr fs6"
    using w6 pl by (simp add: P path_defs Path_plain)
  have o7: "open_write fs6 (get_project_docs_path R project_id @ [''index.md'']) ?c7 = Inr fs7"
    using w7 pl by (simp add: P path_defs Path_plain)
  have res: "create_project R now now' project_id name description fs = (Inr meta, fs7)"
    using chk creatable_not_exists [OF ok] o4 o5 o6 o7
    by (simp add: create_project_def id_check_passes_def Let_def each d2 d3 new)
  have dirs: "\<forall>q\<in>set (project_tree R project_id). Path_is_dir fs7 q"
    using pl by (simp add: project_tree_def P path_defs Path_plain is_dir_def s7 s6 s5 s4 s3)
  have "open_read fs7 (get_project_meta_path R project_id @ [''project.yaml'']) = Inr ?c4"
    using pl by (simp add: P path_defs Path_plain read_file_stat s7 s6 s5 s4)
  with res dirs show ?thesis by blast
qed

lemma create_project_invalid:
  fixes name :: string and description :: string
  assumes ok: "creatable R fs project_id" and chk: "id_check_passes project_id"
    and new: "ProjectMeta_new now
               [(''id'', DStr project_id), (''name'', DStr name),
                (''description'', DStr description), (''created_at'', DTime (Naive now))] = Inl e"
  shows "\<exists>fs'. create_project R now now' project_id name description fs = (Inl e, fs') \<and>
           (\<forall>q\<in>set (project_tree R project_id). Path_is_dir fs' q) \<and>
           \<not> Path_exists fs' (get_project_meta_path R project_id @ [''project.yaml''])"
proof -
  note P = get_project_path_checked [OF chk, of R]
  note cs = creatable_stat [OF ok chk]
  note pl = plain_below [OF cs(1) chk]
  note below = cs(4)
  from create_directories [OF ok chk] obtain fs1 fs2 fs3 where
    each: "mkdir_each fs (map (\<lambda>dir_name. get_project_path R project_id @ [dir_name]) PROJECT_DIRS) = (None, fs1)"
    and d2: "Path_mkdir_exist_ok fs1 (get_project_history_path R project_id @ [''docs'']) = Inr fs2"
    and d3: "Path_mkdir_exist_ok fs2 (get_project_history_path R project_id @ [''meta'']) = Inr fs3"
    and s3: "\<And>ys. stat fs3 (R @ ys) =
              (if ys \<in> set (prefixes [''projects'', project_id]) \<or>
                  ys \<in> set (map (\<lambda>zs. ''projects'' # project_id # zs)
                     [[''docs''], [''chat''], [''meta''], [''history''],
                      [''history'', ''docs''], [''history'', ''meta'']])
               then Some IsDir else stat fs (R @ ys))"
    by blast
  have res: "create_project R now now' project_id name description fs = (Inl e, fs3)"
    using chk creatable_not_exists [OF ok]
    by (simp add: create_project_def id_check_passes_def Let_def each d2 d3 new)
  have dirs: "\<forall>q\<in>set (project_tree R project_id). Path_is_dir fs3 q"
    using pl by (simp add: project_tree_def P path_defs Path_plain is_dir_def s3)
  have "\<not> Path_exists fs3 (get_project_meta_path R project_id @ [''project.yaml''])"
    using pl by (simp add: P path_defs Path_plain path_exists_def s3 below)
  with res dirs show ?thesis by blast
qed

lemma create_project_exists:
  "id_check_passes project_id \<Longrightarrow> project_exists R fs project_id \<Longrightarrow>
   create_project R now now' project_id name description fs = (Inl ProjectExistsError, fs)"
  for name description
  by (simp add: create_project_def id_check_passes_def)

text \<open>A successful call leaves the project directory in place, wherever it started.\<close>

lemma create_project_Inr_D:
  fixes name' :: string and description' :: string
  assumes "create_project R now now' project_id name' description' fs = (Inr m, fs')"
  shows "id_check_passes project_id \<and> project_exists R fs' project_id"
proof -
  let ?P = "get_project_path R project_id"
  from assms have chk: "id_check_passes project_id"
    by (auto simp: create_project_def id_check_passes_def split: if_splits)
  from assms chk obtain fs1 fs2 fs3 fs4 fs5 fs6 c4 c5 c6 c7 where
    each: "mkdir_each fs (map (\<lambda>dir_name. ?P @ [dir_name]) PROJECT_DIRS) = (None, fs1)"
    and d2: "Path_mkdir_exist_ok fs1 (get_project_history_path R project_id @ [''docs'']) = Inr fs2"
    and d3: "Path_mkdir_exist_ok fs2 (get_project_history_path R project_id @ [''meta'']) = Inr fs3"
    and w4: "open_write fs3 (get_project_meta_path R project_id @ [''project.yaml'']) c4 = Inr fs4"
    and w5: "open_write fs4 (get_project_meta_path R project_id @ [''summary.md'']) c5 = Inr fs5"
    and w6: "open_write fs5 (get_project_chat_path R project_id @ [''main.json'']) c6 = Inr fs6"
    and w7: "open_write fs6 (get_project_docs_path R project_id @ [''index.md'']) c7 = Inr fs'"
    by (auto simp: create_project_def id_check_passes_def Let_def
        split: if_splits sum.splits prod.splits option.splits)
  from each obtain fsa fsb fsc where a: "Path_mkdir_parents fs (?P @ [''docs'']) = Inr fsa"
    and b: "Path_mkdir_parents fsa (?P @ [''chat'']) = Inr fsb"
    and c: "Path_mkdir_parents fsb (?P @ [''meta'']) = Inr fsc"
    and d: "Path_mkdir_parents fsc (?P @ [''history'']) = Inr fs1"
    by (auto simp: PROJECT_DIRS_def split: sum.splits)
  have "Path_is_dir fsa ?P"
    using Path_mkdir_parents_parent [OF a] by simp
  then have "Path_is_dir fsb ?P"
    using Path_is_dir_keeps [OF Path_mkdir_parents_keeps [OF b]] by simp
  then have "Path_is_dir fsc ?P"
    using Path_is_dir_keeps [OF Path_mkdir_parents_keeps [OF c]] by simp
  then have "Path_is_dir fs1 ?P"
    using Path_is_dir_keeps [OF Path_mkdir_parents_keeps [OF d]] by simp
  then have "Path_is_dir fs2 ?P"
    using Path_is_dir_keeps [OF Path_mkdir_exist_ok_keeps [OF d2]] by simp
  then have "Path_is_dir fs3 ?P"
    using Path_is_dir_keeps [OF Path_mkdir_exist_ok_keeps [OF d3]] by simp
  then have "Path_is_dir fs4 ?P"
    using Path_is_dir_keeps [OF open_write_keeps [OF w4]] by simp
  then have "Path_is_dir fs5 ?P"
    using Path_is_dir_keeps [OF open_write_keeps [OF w5]] by simp
  then have "Path_is_dir fs6 ?P"
    using Path_is_dir_keeps [OF open_write_keeps [OF w6]] by simp
  then have "Path_is_dir fs' ?P"
    using Path_is_dir_keeps [OF open_write_keeps [OF w7]] by simp
  with chk show ?thesis by (simp add: project_exists_def)
qed


subsection \<open>Reading and opening a project\<close>

lemma meta_file_path:
  "get_project_meta_path R project_id @ [''project.yaml''] =
   get_project_path R project_id @ [''meta'', ''project.yaml'']"
  by (simp add: get_project_meta_path_def)

lemma stored_project_exists:
  "open_read fs (get_project_meta_path R project_id @ [''project.yaml'']) = Inr c \<Longrightarrow>
   project_exists R fs project_id"
  using open_read_below [of fs "get_project_path R project_id" "[''meta'', ''project.yaml'']" c]
  by (simp add: project_exists_def meta_file_path plain_def)

lemma get_project_snd: "snd (get_project R yaml now project_id fs) = fs"
  by (simp add: get_project_def Let_def split: sum.splits)

lemma get_project_loaded:
  "load_yaml yaml fs (get_project_meta_path R project_id @ [''project.yaml'']) = Inr d \<Longrightarrow>
   get_project R yaml now project_id fs = (ProjectMeta_of_data now d, fs)"
  using stored_project_exists [of fs R project_id]
  by (auto simp: get_project_def dest: load_yaml_Inr)

lemma get_project_doc:
  "open_read fs (get_project_meta_path R project_id @ [''project.yaml'']) = Inr (Doc d) \<Longrightarrow>
   get_project R yaml now project_id fs = (ProjectMeta_of_data now d, fs)"
  by (simp add: get_project_loaded load_yaml_read)

lemma get_project_Inr:
  assumes "get_project R yaml now project_id fs = (Inr m, fs')"
  shows "\<exists>d. load_yaml yaml fs (get_project_meta_path R project_id @ [''project.yaml'']) = Inr d \<and>
           ProjectMeta_of_data now d = Inr m"
  using assms by (auto simp: get_project_def Let_def split: if_splits sum.splits)

lemma open_project_stored:
  assumes ld: "load_yaml yaml fs (get_project_meta_path R project_id @ [''project.yaml'']) = Inr d"
    and m: "ProjectMeta_of_data now d = Inr m"
  shows "\<exists>fs' f. open_project R yaml now now' project_id fs =
             (Inr (m\<lparr>last_opened_at := Some (Naive now')\<rparr>), fs') \<and>
           resolve fs (get_project_meta_path R project_id @ [''project.yaml'']) = Inr f \<and>
           (\<forall>q. stat fs' q =
              (if q = f
               then Some (IsFile (Doc (ProjectMeta_dump (m\<lparr>last_opened_at := Some (Naive now')\<rparr>))))
               else stat fs q)) \<and>
           open_read fs' (get_project_meta_path R project_id @ [''project.yaml'']) =
             Inr (Doc (ProjectMeta_dump (m\<lparr>last_opened_at := Some (Naive now')\<rparr>)))"
proof -
  let ?mp = "get_project_meta_path R project_id"
  let ?c = "Doc (ProjectMeta_dump (m\<lparr>last_opened_at := Some (Naive now')\<rparr>))"
  from load_yaml_Inr [OF ld] obtain c where rd: "open_read fs (?mp @ [''project.yaml'']) = Inr c"
    by blast
  have ex: "project_exists R fs project_id" using rd by (rule stored_project_exists)
  have pl: "plain [''project.yaml'']" by (simp add: plain_def)
  from rd obtain g where g: "resolve fs ?mp = Inr g"
    and f: "resolve fs (?mp @ [''project.yaml'']) = Inr (g @ [''project.yaml''])"
    and st: "stat fs (g @ [''project.yaml'']) = Some (IsFile c)"
    by (auto simp: open_read_Inr resolve_append_plain [OF pl] split: sum.splits)
  have "is_dir fs g"
    using stat_append_is_dir [of fs g "[''project.yaml'']"] st by simp
  moreover have "stat fs (g @ [''project.yaml'']) \<noteq> Some IsDir" using st by simp
  ultimately obtain fs' where w: "write_file fs (g @ [''project.yaml'']) ?c = Inr fs'"
    using write_file_ok by blast
  have s: "\<forall>q. stat fs' q = (if q = g @ [''project.yaml''] then Some (IsFile ?c) else stat fs q)"
    by (simp add: write_file_stat [OF w])
  have ow: "open_write fs (?mp @ [''project.yaml'']) ?c = Inr fs'"
    using w f by (simp add: open_write_def)
  have res: "open_project R yaml now now' project_id fs =
      (Inr (m\<lparr>last_opened_at := Some (Naive now')\<rparr>), fs')"
    using ex ow by (simp add: open_project_def Let_def ld m)
  have "resolve fs' (?mp @ [''project.yaml'']) = Inr (g @ [''project.yaml''])"
    using resolve_keeps [OF write_file_keeps_dirs [OF w] f] .
  then have "open_read fs' (?mp @ [''project.yaml'']) = Inr ?c"
    by (simp add: open_read_def read_file_stat s)
  with res f s show ?thesis by blast
qed

subsection \<open>Sorting\<close>

lemma sorted_reverse_Inl: "sorted_reverse k xs = Inl e \<longleftrightarrow> e = TypeError \<and> mixed (map k xs)"
  by (auto simp: sorted_reverse_def)

lemma sorted_reverse_mset: "sorted_reverse k xs = Inr ys \<Longrightarrow> mset ys = mset xs"
  by (auto simp: sorted_reverse_def split: if_splits)

lemma sorted_reverse_set: "sorted_reverse k xs = Inr ys \<Longrightarrow> set ys = set xs"
  by (auto simp: sorted_reverse_def split: if_splits)

lemma sorted_reverse_length: "sorted_reverse k xs = Inr ys \<Longrightarrow> length ys = length xs"
  by (auto simp: sorted_reverse_def split: if_splits)

lemma sorted_reverse_descending:
  assumes "sorted_reverse k xs = Inr ys"
  shows "sorted_wrt (\<lambda>a b. instant (k b) \<le> instant (k a)) ys"
proof -
  have "sorted (map (\<lambda>x. instant (k x)) (sort_key (\<lambda>x. instant (k x)) (rev xs)))"
    by (rule sorted_sort_key)
  then have "sorted_wrt (\<lambda>a b. instant (k a) \<le> instant (k b)) (sort_key (\<lambda>x. instant (k x)) (rev xs))"
    by (simp add: sorted_map)
  with assms show ?thesis
    by (auto simp: sorted_reverse_def sorted_wrt_rev split: if_splits)
qed

lemma mixed_D:
  "mixed (map k xs) \<Longrightarrow> \<exists>a\<in>set xs. \<exists>b\<in>set xs. is_aware (k a) \<and> \<not> is_aware (k b)"
  by (auto simp: mixed_def list_ex_iff)

lemma not_mixed_I:
  "sorted_reverse k xs = Inr ys \<Longrightarrow> a \<in> set xs \<Longrightarrow> b \<in> set xs \<Longrightarrow>
   is_aware (k a) = is_aware (k b)"
  by (auto simp: sorted_reverse_def mixed_def list_ex_iff split: if_splits)

subsection \<open>Listing\<close>

lemma entry_project_path:
  "entry_name n \<Longrightarrow> get_project_path R n = PROJECTS_ROOT R @ [n]"
  by (simp add: get_project_path_def joinpath_entry_name)

lemma load_projects_get:
  "\<forall>n\<in>set ns. entry_name n \<Longrightarrow>
   load_projects yaml now fs (map (\<lambda>n. PROJECTS_ROOT R @ [n]) ns) =
   concat (map (record_of R yaml now fs) ns)"
proof (induction ns)
  case Nil
  then show ?case by simp
next
  case (Cons n ns)
  then have IH: "load_projects yaml now fs (map (\<lambda>n. PROJECTS_ROOT R @ [n]) ns) =
      concat (map (record_of R yaml now fs) ns)" by simp
  from Cons.prems have P: "get_project_path R n = PROJECTS_ROOT R @ [n]"
    by (simp add: entry_project_path)
  let ?f = "(PROJECTS_ROOT R @ [n]) @ [''meta'', ''project.yaml'']"
  have f: "get_project_meta_path R n @ [''project.yaml''] = ?f"
    by (simp add: meta_file_path P)
  show ?case
  proof (cases "Path_is_dir fs (PROJECTS_ROOT R @ [n])")
    case False
    then have "record_of R yaml now fs n = []"
      by (simp add: record_of_def get_project_def project_exists_def P)
    with False IH show ?thesis by simp
  next
    case True
    then have ex: "project_exists R fs n"
      by (simp add: project_exists_def P)
    show ?thesis
    proof (cases "load_yaml yaml fs ?f")
      case (Inl e)
      then have "record_of R yaml now fs n = []"
        using ex by (simp add: record_of_def get_project_def f)
      with True Inl IH show ?thesis by (simp add: Let_def)
    next
      case (Inr d)
      then have "Path_exists fs ?f"
        using load_yaml_missing [of fs ?f yaml] by auto
      moreover have "get_project R yaml now n fs = (ProjectMeta_of_data now d, fs)"
        using ex Inr by (simp add: get_project_def f)
      then have "record_of R yaml now fs n =
          (case ProjectMeta_of_data now d of Inl e \<Rightarrow> [] | Inr m \<Rightarrow> [m])"
        by (simp add: record_of_def)
      ultimately show ?thesis
        using True Inr IH
        by (cases "ProjectMeta_of_data now d") (simp_all add: Let_def)
    qed
  qed
qed

lemma listdir_entry: "listdir fs q = Inr names \<Longrightarrow> n \<in> set names \<Longrightarrow> entry_name n"
  by (cases "lookup fs q") (auto simp: listdir_def split: node.splits)

lemma project_names_entry: "n \<in> set (project_names R fs) \<Longrightarrow> entry_name n"
  by (cases "resolve fs (PROJECTS_ROOT R)")
     (auto simp: project_names_def dest: listdir_entry [OF sym] split: sum.splits)

lemma iterdir_names:
  "Path_is_dir fs (PROJECTS_ROOT R) \<Longrightarrow>
   Path_iterdir fs (PROJECTS_ROOT R) = Inr (map (\<lambda>n. PROJECTS_ROOT R @ [n]) (project_names R fs))"
  by (auto simp: Path_is_dir_def is_dir_def stat_def Path_iterdir_def listdir_def project_names_def
      split: sum.splits option.splits node.splits)

lemma Path_is_dir_exists: "Path_is_dir fs p \<Longrightarrow> Path_exists fs p"
  by (auto simp: Path_is_dir_def Path_exists_def is_dir_def path_exists_def split: sum.splits)

lemma list_projects_dir:
  "Path_is_dir fs (PROJECTS_ROOT R) \<Longrightarrow>
   list_projects R yaml now fs =
     (sorted_reverse sort_key_of (stored_projects R yaml now fs), fs)"
  using load_projects_get [of "project_names R fs" yaml now fs R] project_names_entry [of _ R fs]
  by (simp add: list_projects_def iterdir_names stored_projects_def Path_is_dir_exists)

lemma length_record_of:
  "length (record_of R yaml now fs n) = (if loads R yaml now fs n then 1 else 0)"
  by (simp add: record_of_def loads_def split: sum.splits)

lemma loads_record_of: "loads R yaml now fs n \<longleftrightarrow> record_of R yaml now fs n \<noteq> []"
  by (simp add: record_of_def loads_def split: sum.splits)

lemma loads_iff: "loads R yaml now fs n \<longleftrightarrow> (\<exists>m. get_project R yaml now n fs = (Inr m, fs))"
proof -
  have "snd (get_project R yaml now n fs) = fs" by (rule get_project_snd)
  then show ?thesis
    by (cases "get_project R yaml now n fs"; cases "fst (get_project R yaml now n fs)")
       (auto simp: loads_def)
qed

lemma length_concat_record_of:
  "length (concat (map (record_of R yaml now fs) ns)) = length (filter (loads R yaml now fs) ns)"
  by (induction ns) (simp_all add: length_record_of)

lemma length_stored_projects:
  "length (stored_projects R yaml now fs) =
   length (filter (loads R yaml now fs) (project_names R fs))"
  by (simp add: stored_projects_def length_concat_record_of)

lemma in_record_of:
  "m \<in> set (record_of R yaml now fs n) \<longleftrightarrow> get_project R yaml now n fs = (Inr m, fs)"
proof -
  have "snd (get_project R yaml now n fs) = fs" by (rule get_project_snd)
  then show ?thesis
    by (cases "get_project R yaml now n fs") (auto simp: record_of_def split: sum.splits)
qed

lemma in_stored_projects:
  "m \<in> set (stored_projects R yaml now fs) \<longleftrightarrow>
   (\<exists>n\<in>set (project_names R fs). get_project R yaml now n fs = (Inr m, fs))"
  by (auto simp: stored_projects_def in_record_of)

lemma not_loads_missing:
  "\<not> Path_exists fs (get_project_meta_path R n @ [''project.yaml'']) \<Longrightarrow> \<not> loads R yaml now fs n"
  using load_yaml_missing [of fs "get_project_meta_path R n @ [''project.yaml'']" yaml]
  by (auto simp: loads_def get_project_def)

lemma not_loads_unparsed:
  "load_yaml yaml fs (get_project_meta_path R n @ [''project.yaml'']) = Inl e \<Longrightarrow>
   \<not> loads R yaml now fs n"
  by (simp add: loads_def get_project_def)

lemma not_loads_invalid:
  "load_yaml yaml fs (get_project_meta_path R n @ [''project.yaml'']) = Inr d \<Longrightarrow>
   ProjectMeta_of_data now d = Inl e \<Longrightarrow> \<not> loads R yaml now fs n"
  by (simp add: loads_def get_project_def)

subsection \<open>The identifier check\<close>

lemma create_project_bad_id:
  "\<not> id_check_passes project_id \<Longrightarrow>
   create_project R now now' project_id name1 description1 fs = (Inl ValueError, fs)"
  for name1 description1
  by (auto simp: create_project_def id_check_passes_def)

lemma ord_char_of: "n < 256 \<Longrightarrow> ord (char_of n) = n"
  by (simp add: ord_def)

lemma upper_not_lower: "65 \<le> ord c \<Longrightarrow> ord c \<le> 90 \<Longrightarrow> lower_char c \<noteq> c"
proof
  assume a: "65 \<le> ord c" "ord c \<le> 90" and eq: "lower_char c = c"
  from a eq have "char_of (ord c + 32) = c" by (simp add: lower_char_def Let_def)
  then have "ord (char_of (ord c + 32)) = ord c" by simp
  with a show False by (simp add: ord_char_of)
qed

lemma ascii_check_char:
  assumes "ord c < 128" and "c \<noteq> CHR ''-''" and "isalnum_char c" and "lower_char c = c"
  shows "id_pattern_char c"
proof -
  from assms(4) upper_not_lower [of c] have "\<not> (65 \<le> ord c \<and> ord c \<le> 90)" by blast
  with assms(1,3) show ?thesis
    by (auto simp: isalnum_char_def id_pattern_char_def Let_def)
qed

text \<open>
  On identifiers of ASCII characters the check of \<open>create_project\<close> accepts what the
  pattern accepts, but for the identifiers made of hyphens only.
\<close>

lemma id_check_passes_ascii:
  assumes "\<forall>c\<in>set s. ord c < 128"
  shows "id_check_passes s \<longleftrightarrow> id_pattern s \<and> (\<exists>c\<in>set s. c \<noteq> CHR ''-'')"
proof
  assume p: "id_check_passes s"
  then have ne: "s \<noteq> []" and al: "list_all isalnum_char (replace_hyphens s)"
    and nh: "replace_hyphens s \<noteq> []" and lo: "map lower_char s = s"
    by (simp_all add: id_check_passes_def isalnum_def lower_def)
  have "id_pattern_char c" if c: "c \<in> set s" for c
  proof (cases "c = CHR ''-''")
    case True
    then show ?thesis by (simp add: id_pattern_char_def)
  next
    case False
    with c al have "isalnum_char c"
      by (simp add: replace_hyphens_def list_all_iff)
    moreover from lo c have "lower_char c = c"
      by (metis map_eq_conv list.map_id0 id_apply)
    ultimately show ?thesis using assms c False by (simp add: ascii_check_char)
  qed
  moreover from nh have "\<exists>c\<in>set s. c \<noteq> CHR ''-''"
    by (auto simp: replace_hyphens_def filter_empty_conv)
  ultimately show "id_pattern s \<and> (\<exists>c\<in>set s. c \<noteq> CHR ''-'')"
    using ne by (simp add: id_pattern_def list_all_iff)
next
  assume "id_pattern s \<and> (\<exists>c\<in>set s. c \<noteq> CHR ''-'')"
  then show "id_check_passes s"
    using id_pattern_isalnum [of s] id_pattern_lower [of s]
    by (auto simp: id_check_passes_def id_pattern_def)
qed

lemmas id_defs = id_check_passes_def id_pattern_def id_pattern_char_def isalnum_def isalnum_char_def
  replace_hyphens_def lower_def lower_char_def ord_def

lemmas fs_defs = creatable_def plain_def project_exists_def get_project_path_def joinpath_def
  parts_def is_absolute_def Path_is_dir_def Path_exists_def open_read_def open_write_def
  Path_mkdir_parents_def Path_mkdir_exist_ok_def resolve_def
  is_dir_def path_exists_def stat_simps path_defs

lemmas meta_defs = ProjectMeta_new_def required_def optional_def as_id_def as_name_def

lemma create_project_get:
  fixes name1 :: string and description1 :: string
  assumes "creatable R fs project_id" and "id_check_passes project_id" and "id_pattern project_id"
    and "1 \<le> length name1" and "length name1 \<le> 100"
  shows "\<exists>fs1.
           create_project R now now' project_id name1 description1 fs =
             (Inr \<lparr>id' = project_id, name = name1, created_at = Naive now, last_opened_at = None,
                   description = description1, status = ACTIVE, rules = default_rules\<rparr>, fs1) \<and>
           (\<forall>yaml t. get_project R yaml t project_id fs1 =
             (Inr \<lparr>id' = project_id, name = name1, created_at = Naive now, last_opened_at = None,
                   description = description1, status = ACTIVE, rules = default_rules\<rparr>, fs1))"
proof -
  let ?m = "\<lparr>id' = project_id, name = name1, created_at = Naive now, last_opened_at = None,
        description = description1, status = ACTIVE, rules = default_rules\<rparr>"
  from create_project_created [OF assms(1,2) ProjectMeta_new_create [OF assms(3,4,5)]]
  obtain fs1 where
    c: "create_project R now now' project_id name1 description1 fs = (Inr ?m, fs1)"
    and st: "open_read fs1 (get_project_meta_path R project_id @ [''project.yaml'']) =
               Inr (Doc (ProjectMeta_dump ?m))"
    by blast
  have "ProjectMeta_of_data t (ProjectMeta_dump ?m) = Inr ?m" for t
    using assms(3,4,5) by (intro ProjectMeta_roundtrip) simp_all
  with get_project_doc [OF st] have "\<forall>yaml t. get_project R yaml t project_id fs1 = (Inr ?m, fs1)"
    by simp
  with c show ?thesis by blast
qed


subsection \<open>What is stored\<close>

lemma required_as_id:
  "required as_id kw k = Some i \<longleftrightarrow> stored_as kw k (DStr i) False \<and> id_pattern i"
proof (cases "map_of kw k")
  case None
  then show ?thesis by (simp add: required_def stored_as_def)
next
  case (Some d)
  then show ?thesis by (cases d) (auto simp: required_def stored_as_def as_id_def)
qed

lemma required_as_name:
  "required as_name kw k = Some n \<longleftrightarrow>
   stored_as kw k (DStr n) False \<and> 1 \<le> length n \<and> length n \<le> 100"
proof (cases "map_of kw k")
  case None
  then show ?thesis by (simp add: required_def stored_as_def)
next
  case (Some d)
  then show ?thesis by (cases d) (auto simp: required_def stored_as_def as_name_def)
qed

lemma optional_as_datetime:
  "optional as_datetime dflt kw k = Some c \<longleftrightarrow> stored_as kw k (DTime c) (c = dflt)"
proof (cases "map_of kw k")
  case None
  then show ?thesis by (auto simp: optional_def stored_as_def)
next
  case (Some d)
  then show ?thesis by (cases d) (auto simp: optional_def stored_as_def)
qed

lemma optional_as_optional_datetime:
  "optional as_optional_datetime None kw k = Some l \<longleftrightarrow>
   stored_as kw k (case l of None \<Rightarrow> DNull | Some t \<Rightarrow> DTime t) (l = None)"
proof (cases "map_of kw k")
  case None
  then show ?thesis by (auto simp: optional_def stored_as_def)
next
  case (Some d)
  then show ?thesis
    by (cases d; cases l) (auto simp: optional_def stored_as_def)
qed

lemma optional_as_str:
  "optional as_str dflt kw k = Some s \<longleftrightarrow> stored_as kw k (DStr s) (s = dflt)"
proof (cases "map_of kw k")
  case None
  then show ?thesis by (auto simp: optional_def stored_as_def)
next
  case (Some d)
  then show ?thesis by (cases d) (auto simp: optional_def stored_as_def)
qed

lemma optional_as_bool:
  "optional as_bool dflt kw k = Some b \<longleftrightarrow> stored_as kw k (DBool b) (b = dflt)"
proof (cases "map_of kw k")
  case None
  then show ?thesis by (auto simp: optional_def stored_as_def)
next
  case (Some d)
  then show ?thesis by (cases d) (auto simp: optional_def stored_as_def)
qed

lemma optional_as_int:
  "optional as_int dflt kw k = Some i \<longleftrightarrow> stored_as kw k (DInt i) (i = dflt)"
proof (cases "map_of kw k")
  case None
  then show ?thesis by (auto simp: optional_def stored_as_def)
next
  case (Some d)
  then show ?thesis by (cases d) (auto simp: optional_def stored_as_def)
qed

lemma as_status_iff: "as_status d = Some s \<longleftrightarrow> d = DStr (status_value s)"
  by (cases d; cases s) (auto simp: status_value_def)

lemma optional_as_status:
  "optional as_status ACTIVE kw k = Some s \<longleftrightarrow>
   stored_as kw k (DStr (status_value s)) (s = ACTIVE)"
proof (cases "map_of kw k")
  case None
  then show ?thesis by (auto simp: optional_def stored_as_def)
next
  case (Some d)
  then show ?thesis by (simp add: optional_def stored_as_def as_status_iff)
qed

lemma as_rules_iff:
  "as_rules (DMap rw) = Some r \<longleftrightarrow>
     stored_as rw ''allow_cross_project_access'' (DBool (allow_cross_project_access r))
       (allow_cross_project_access r = False) \<and>
     stored_as rw ''llm_edit_scope'' (DStr (llm_edit_scope r)) (llm_edit_scope r = ''markdown_only'') \<and>
     stored_as rw ''max_llm_edit_size'' (DInt (max_llm_edit_size r)) (max_llm_edit_size r = 500)"
proof -
  have "as_rules (DMap rw) = Some r \<longleftrightarrow>
      optional as_bool False rw ''allow_cross_project_access'' = Some (allow_cross_project_access r) \<and>
      optional as_str ''markdown_only'' rw ''llm_edit_scope'' = Some (llm_edit_scope r) \<and>
      optional as_int 500 rw ''max_llm_edit_size'' = Some (max_llm_edit_size r)"
    by (cases r) (auto split: option.splits)
  then show ?thesis
    by (simp only: optional_as_bool optional_as_str optional_as_int)
qed

lemma optional_as_rules:
  "optional as_rules default_rules kw ''rules'' = Some r \<longleftrightarrow> stored_rules kw r"
proof (cases "map_of kw ''rules''")
  case None
  then show ?thesis by (auto simp: optional_def stored_rules_def)
next
  case (Some d)
  show ?thesis
  proof (cases d)
    case (DMap rw)
    with Some show ?thesis
      by (simp add: optional_def stored_rules_def as_rules_iff del: as_rules.simps)
  qed (use Some in \<open>simp_all add: optional_def stored_rules_def\<close>)
qed

lemma ProjectMeta_new_iff:
  "ProjectMeta_new now kw = Inr m \<longleftrightarrow>
   stored_record now kw m \<and> id_pattern (id' m) \<and> 1 \<le> length (name m) \<and> length (name m) \<le> 100"
proof -
  have "ProjectMeta_new now kw = Inr m \<longleftrightarrow>
      required as_id kw ''id'' = Some (id' m) \<and>
      required as_name kw ''name'' = Some (name m) \<and>
      optional as_datetime (Naive now) kw ''created_at'' = Some (created_at m) \<and>
      optional as_optional_datetime None kw ''last_opened_at'' = Some (last_opened_at m) \<and>
      optional as_str '''' kw ''description'' = Some (description m) \<and>
      optional as_status ACTIVE kw ''status'' = Some (status m) \<and>
      optional as_rules default_rules kw ''rules'' = Some (rules m)"
    by (cases m) (auto simp: ProjectMeta_new_def split: option.splits)
  then show ?thesis
    by (simp only: required_as_id required_as_name optional_as_datetime
        optional_as_optional_datetime optional_as_str optional_as_status optional_as_rules
        stored_record_def) auto
qed


subsection \<open>The identifier with no name in it\<close>

text \<open>
  \<open>PROJECTS_ROOT / ""\<close> is the projects root itself, and \<open>PROJECTS_ROOT / ".."\<close> resolves to
  \<open>FORGE_ROOT\<close>: for these identifiers the project directory exists when that directory
  does.
\<close>

lemma project_exists_empty_id:
  "project_exists R fs [] = Path_is_dir fs (PROJECTS_ROOT R)"
  by (simp add: project_exists_def get_project_path_def joinpath_def parts_def is_absolute_def)

lemma get_project_path_dotdot: "get_project_path R ''..'' = R @ [''projects'', ''..'']"
  by (simp add: get_project_path_def joinpath_def parts_def is_absolute_def PROJECTS_ROOT_def)

text \<open>
  A letter beyond ASCII passes the check: the identifier is refused later, by the pattern
  of \<open>ProjectMeta\<close>, when the directories are made.
\<close>

lemma create_project_accented_letter:
  "id_check_passes [CHR 0xE9] \<and> \<not> id_pattern [CHR 0xE9] \<and>
   create_project example_root 1 2 [CHR 0xE9] ''Name'' [] empty_forge =
     (Inl ValidationError,
      Dir [(''forge'', Dir [(''projects'', Dir [([CHR 0xE9],
        Dir [(''docs'', Dir []), (''chat'', Dir []), (''meta'', Dir []),
             (''history'', Dir [(''docs'', Dir []), (''meta'', Dir [])])])])])])"
  by (simp add: create_project_def example_root_def empty_forge_def id_defs fs_defs meta_defs)

subsection \<open>The example projects roots\<close>

lemma example_fs_root: "Path_is_dir example_fs (PROJECTS_ROOT example_root)"
  by (simp add: example_fs_def example_root_def fs_defs)

lemma example_fs_names:
  "project_names example_root example_fs =
     [''alpha'', ''beta'', ''gamma'', ''notes.txt'', ''empty'', ''unreadable'', ''broken'',
      ''scalar'', ''invalid'']"
  by (simp add: project_names_def listdir_def entry_name_def example_fs_def example_root_def fs_defs)

lemma example_fs_records:
  "record_of example_root example_yaml now example_fs ''alpha'' =
     [example_meta ''alpha'' ''Alpha'' (Naive 5) (Some (Naive 7))]"
  "record_of example_root example_yaml now example_fs ''beta'' =
     [example_meta ''beta'' ''Beta'' (Naive 6) None]"
  "record_of example_root example_yaml now example_fs ''gamma'' =
     [example_meta ''gamma'' ''Gamma'' (Naive 9) None]"
  "record_of example_root example_yaml now example_fs ''notes.txt'' = []"
  "record_of example_root example_yaml now example_fs ''empty'' = []"
  "record_of example_root example_yaml now example_fs ''unreadable'' = []"
  "record_of example_root example_yaml now example_fs ''broken'' = []"
  "record_of example_root example_yaml now example_fs ''scalar'' = []"
  "record_of example_root example_yaml now example_fs ''invalid'' = []"
  by (simp_all add: record_of_def get_project_def load_yaml_def example_yaml_def example_fs_def
      example_root_def example_meta_def fs_defs meta_defs id_defs)

lemma example_fs_stored:
  "stored_projects example_root example_yaml now example_fs =
     [example_meta ''alpha'' ''Alpha'' (Naive 5) (Some (Naive 7)),
      example_meta ''beta'' ''Beta'' (Naive 6) None,
      example_meta ''gamma'' ''Gamma'' (Naive 9) None]"
  by (simp add: stored_projects_def example_fs_names example_fs_records)

lemma example_fs_list:
  "list_projects example_root example_yaml now example_fs =
     (Inr [example_meta ''gamma'' ''Gamma'' (Naive 9) None,
           example_meta ''alpha'' ''Alpha'' (Naive 5) (Some (Naive 7)),
           example_meta ''beta'' ''Beta'' (Naive 6) None], example_fs)"
  by (simp add: list_projects_dir [OF example_fs_root] example_fs_stored sorted_reverse_def
      mixed_def sort_key_of_def example_meta_def)

lemma mixed_fs_root: "Path_is_dir mixed_fs (PROJECTS_ROOT example_root)"
  by (simp add: mixed_fs_def example_root_def fs_defs)

lemma mixed_fs_names: "project_names example_root mixed_fs = [''alpha'', ''beta'']"
  by (simp add: project_names_def listdir_def entry_name_def mixed_fs_def example_root_def fs_defs)

lemma mixed_fs_get:
  "get_project example_root yaml now ''alpha'' mixed_fs =
     (Inr (example_meta ''alpha'' ''Alpha'' (Naive 5) None), mixed_fs)"
  "get_project example_root yaml now ''beta'' mixed_fs =
     (Inr (example_meta ''beta'' ''Beta'' (Aware 6 0) None), mixed_fs)"
  by (simp_all add: get_project_def load_yaml_def mixed_fs_def example_root_def
      example_meta_def fs_defs meta_defs id_defs)

lemma mixed_fs_stored:
  "stored_projects example_root yaml now mixed_fs =
     [example_meta ''alpha'' ''Alpha'' (Naive 5) None,
      example_meta ''beta'' ''Beta'' (Aware 6 0) None]"
  by (simp add: stored_projects_def mixed_fs_names record_of_def mixed_fs_get)

lemma mixed_fs_list:
  "list_projects example_root yaml now mixed_fs = (Inl TypeError, mixed_fs)"
  by (simp add: list_projects_dir [OF mixed_fs_root] mixed_fs_stored sorted_reverse_def
      mixed_def sort_key_of_def example_meta_def)

text \<open>
  When the listing returns, its result is a permutation of the records that load, in
  descending order of the sort key.
\<close>

lemma list_projects_comparable:
  assumes "Path_is_dir fs (PROJECTS_ROOT R)"
    and "list_projects R yaml now fs = (Inr ps, fs')"
  shows "mset ps = mset (stored_projects R yaml now fs) \<and>
         sorted_wrt (\<lambda>a b. instant (sort_key_of b) \<le> instant (sort_key_of a)) ps \<and>
         (\<forall>a\<in>set ps. \<forall>b\<in>set ps. is_aware (sort_key_of a) = is_aware (sort_key_of b))"
proof -
  from assms have s: "sorted_reverse sort_key_of (stored_projects R yaml now fs) = Inr ps"
    by (auto simp: list_projects_dir)
  from sorted_reverse_mset [OF s] sorted_reverse_descending [OF s] sorted_reverse_set [OF s]
    not_mixed_I [OF s]
  show ?thesis by blast
qed

lemma list_projects_no_root:
  "\<not> Path_exists fs (PROJECTS_ROOT R) \<Longrightarrow> list_projects R yaml now fs = (Inr [], fs)"
  by (simp add: list_projects_def)


section \<open>The claims\<close>

text \<open>
  C1. An identifier made of hyphens only matches the pattern \<open>^[a-z0-9-]+$\<close>, and
  \<open>create_project\<close> raises \<open>ValueError\<close> for it: with the hyphens removed nothing is
  left, and the empty string is not alphanumeric.
\<close>

theorem create_project_rejects_hyphens:
  "id_pattern ''-'' \<and>
   create_project R now now' ''-'' name1 description1 fs = (Inl ValueError, fs)"
  for name1 description1
  by (simp add: create_project_def id_defs)

text \<open>
  C2, as amended. For an identifier that matches the pattern and has a letter or a digit
  in it, a name of 1 to 100 characters, and a file system in which the project can be
  created, \<open>create_project\<close> succeeds, and \<open>get_project\<close> on the file system it leaves
  returns the same record: its id, name and description are the arguments, its status is
  active and \<open>last_opened_at\<close> is absent.
\<close>

theorem create_then_get:
  fixes name1 :: string and description1 :: string
  assumes "creatable R fs project_id"
    and "id_pattern project_id" and "\<exists>c\<in>set project_id. c \<noteq> CHR ''-''"
    and "1 \<le> length name1" and "length name1 \<le> 100"
  shows "\<exists>m fs1. create_project R now now' project_id name1 description1 fs = (Inr m, fs1) \<and>
           get_project R yaml t project_id fs1 = (Inr m, fs1) \<and>
           id' m = project_id \<and> name m = name1 \<and> description m = description1 \<and>
           status m = ACTIVE \<and> last_opened_at m = None"
proof -
  have chk: "id_check_passes project_id"
    using assms(2,3) id_pattern_isalnum [of project_id] id_pattern_lower [of project_id]
    by (auto simp: id_check_passes_def id_pattern_def)
  from create_project_get [OF assms(1) chk assms(2,4,5), of now now' description1]
  obtain fs1 where
    "create_project R now now' project_id name1 description1 fs =
       (Inr \<lparr>id' = project_id, name = name1, created_at = Naive now, last_opened_at = None,
             description = description1, status = ACTIVE, rules = default_rules\<rparr>, fs1)"
    "get_project R yaml t project_id fs1 =
       (Inr \<lparr>id' = project_id, name = name1, created_at = Naive now, last_opened_at = None,
             description = description1, status = ACTIVE, rules = default_rules\<rparr>, fs1)"
    by blast
  then show ?thesis by simp
qed

theorem create_then_get_witness:
  "creatable example_root empty_forge ''test-project'' \<and> id_pattern ''test-project'' \<and>
   1 \<le> length ''Test Project'' \<and> length ''Test Project'' \<le> 100 \<and>
   (\<exists>m fs1. create_project example_root 1 2 ''test-project'' ''Test Project'' ''Description''
        empty_forge = (Inr m, fs1) \<and>
      get_project example_root example_yaml 3 ''test-project'' fs1 = (Inr m, fs1) \<and>
      m = \<lparr>id' = ''test-project'', name = ''Test Project'', created_at = Naive 1,
           last_opened_at = None, description = ''Description'', status = ACTIVE,
           rules = default_rules\<rparr>)"
proof -
  have h1: "creatable example_root empty_forge ''test-project''"
    by (simp add: example_root_def empty_forge_def fs_defs)
  have h2: "id_pattern ''test-project''" by (simp add: id_defs)
  have h3: "\<exists>c\<in>set ''test-project''. c \<noteq> CHR ''-''" by simp
  have h4: "1 \<le> length ''Test Project''" and h5: "length ''Test Project'' \<le> 100" by simp_all
  have e: "fst (create_project example_root 1 2 ''test-project'' ''Test Project'' ''Description''
        empty_forge) =
      Inr \<lparr>id' = ''test-project'', name = ''Test Project'', created_at = Naive 1,
           last_opened_at = None, description = ''Description'', status = ACTIVE,
           rules = default_rules\<rparr>"
    by (simp add: create_project_def example_root_def empty_forge_def id_defs fs_defs meta_defs
        Let_def)
  from create_then_get [OF h1 h2 h3 h4 h5, of 1 2 "''Description''" example_yaml 3] h1 h2 h4 h5 e
  show ?thesis by auto
qed

theorem create_then_get_counterexample:
  "id_pattern ''test-project'' \<and>
   creatable example_root empty_forge ''test-project'' \<and>
   create_project example_root 1 2 ''test-project'' [] ''Description'' empty_forge =
     (Inl ValidationError, test_project_dirs) \<and>
   fst (get_project example_root example_yaml 3 ''test-project'' test_project_dirs) =
     Inl (OSError FileNotFoundError)"
  by (simp add: create_project_def get_project_def load_yaml_def example_root_def empty_forge_def
      test_project_dirs_def id_defs fs_defs meta_defs)

text \<open>
  C3. Let \<open>m\<close> be the stored record of an existing project (what \<open>get_project\<close> returns for
  it, whenever it is called). Then \<open>open_project\<close> returns \<open>m\<close> with \<open>last_opened_at\<close>
  set to the time of the call and every other field as stored, writes that record to
  \<open>meta/project.yaml\<close> and changes nothing else in the file system. A second call, made
  when the clock reads no less, returns a \<open>last_opened_at\<close> that is later or equal.
\<close>

theorem open_project_touches_last_opened_at:
  assumes stored: "\<forall>t. get_project R yaml t project_id fs = (Inr m, fs)"
    and clock: "now1 \<le> now2"
  shows "\<exists>r1 fs1 r2 fs2.
           open_project R yaml t1 now1 project_id fs = (Inr r1, fs1) \<and>
           r1 = m\<lparr>last_opened_at := Some (Naive now1)\<rparr> \<and>
           (\<forall>y t. get_project R y t project_id fs1 = (Inr r1, fs1)) \<and>
           (\<exists>f. resolve fs (get_project_meta_path R project_id @ [''project.yaml'']) = Inr f \<and>
                (\<forall>q. q \<noteq> f \<longrightarrow> stat fs1 q = stat fs q)) \<and>
           open_project R yaml t2 now2 project_id fs1 = (Inr r2, fs2) \<and>
           r2 = m\<lparr>last_opened_at := Some (Naive now2)\<rparr> \<and>
           (\<exists>a b. last_opened_at r1 = Some (Naive a) \<and> last_opened_at r2 = Some (Naive b) \<and>
                  a \<le> b)"
proof -
  let ?f = "get_project_meta_path R project_id @ [''project.yaml'']"
  let ?r1 = "m\<lparr>last_opened_at := Some (Naive now1)\<rparr>"
  from stored have "get_project R yaml t1 project_id fs = (Inr m, fs)" by blast
  from get_project_Inr [OF this] obtain d where
    ld: "load_yaml yaml fs ?f = Inr d" by blast
  have m: "ProjectMeta_of_data t d = Inr m" for t
    using stored get_project_loaded [OF ld, of t] by simp
  from open_project_stored [OF ld m, of t1 now1] obtain fs1 f where
    o1: "open_project R yaml t1 now1 project_id fs = (Inr ?r1, fs1)"
    and rf: "resolve fs ?f = Inr f"
    and s1: "\<And>q. stat fs1 q = (if q = f then Some (IsFile (Doc (ProjectMeta_dump ?r1))) else stat fs q)"
    and rd1: "open_read fs1 ?f = Inr (Doc (ProjectMeta_dump ?r1))"
    by blast
  have valid: "id_pattern (id' ?r1) \<and> 1 \<le> length (name ?r1) \<and> length (name ?r1) \<le> 100"
    using ProjectMeta_of_data_valid [OF m] by simp
  have rt: "ProjectMeta_of_data t (ProjectMeta_dump ?r1) = Inr ?r1" for t
    using valid by (intro ProjectMeta_roundtrip) simp_all
  have g1: "\<forall>y t. get_project R y t project_id fs1 = (Inr ?r1, fs1)"
    using get_project_doc [OF rd1] rt by simp
  have ld1: "load_yaml yaml fs1 ?f = Inr (ProjectMeta_dump ?r1)"
    by (simp add: load_yaml_read [OF rd1])
  from open_project_stored [OF ld1 rt, of t2 now2] obtain fs2 where
    o2: "open_project R yaml t2 now2 project_id fs1 =
      (Inr (?r1\<lparr>last_opened_at := Some (Naive now2)\<rparr>), fs2)"
    by blast
  have u: "?r1\<lparr>last_opened_at := Some (Naive now2)\<rparr> = m\<lparr>last_opened_at := Some (Naive now2)\<rparr>"
    by simp
  have frame: "\<exists>f. resolve fs ?f = Inr f \<and> (\<forall>q. q \<noteq> f \<longrightarrow> stat fs1 q = stat fs q)"
    using rf s1 by auto
  from o1 o2 g1 frame clock show ?thesis unfolding u by auto
qed

theorem open_project_touches_last_opened_at_witness:
  "(\<forall>t. get_project example_root example_yaml t ''test-project''
         (snd (create_project example_root 1 2 ''test-project'' ''Test Project'' [] empty_forge)) =
       (Inr (example_meta ''test-project'' ''Test Project'' (Naive 1) None),
        snd (create_project example_root 1 2 ''test-project'' ''Test Project'' [] empty_forge))) \<and>
   (10 :: nat) \<le> 20 \<and>
   (\<exists>r1 fs1 r2 fs2.
      open_project example_root example_yaml 9 10 ''test-project''
        (snd (create_project example_root 1 2 ''test-project'' ''Test Project'' [] empty_forge)) =
        (Inr r1, fs1) \<and>
      r1 = example_meta ''test-project'' ''Test Project'' (Naive 1) (Some (Naive 10)) \<and>
      (\<forall>t. get_project example_root example_yaml t ''test-project'' fs1 = (Inr r1, fs1)) \<and>
      open_project example_root example_yaml 19 20 ''test-project'' fs1 = (Inr r2, fs2) \<and>
      r2 = example_meta ''test-project'' ''Test Project'' (Naive 1) (Some (Naive 20)))"
proof -
  let ?fs = "snd (create_project example_root 1 2 ''test-project'' ''Test Project'' [] empty_forge)"
  let ?m = "example_meta ''test-project'' ''Test Project'' (Naive 1) None"
  have "creatable example_root empty_forge ''test-project''"
    by (simp add: example_root_def empty_forge_def fs_defs)
  moreover have "id_check_passes ''test-project''" and "id_pattern ''test-project''"
    by (simp_all add: id_defs)
  moreover have "1 \<le> length ''Test Project''" and "length ''Test Project'' \<le> 100"
    by simp_all
  ultimately obtain fs1 where
    "create_project example_root 1 2 ''test-project'' ''Test Project'' [] empty_forge = (Inr ?m, fs1)"
    and g: "\<forall>yaml t. get_project example_root yaml t ''test-project'' fs1 = (Inr ?m, fs1)"
    using create_project_get [of example_root empty_forge "''test-project''" "''Test Project''" 1 2 "[]"]
    unfolding example_meta_def by blast
  then have "?fs = fs1" by simp
  with g have h1: "\<forall>t. get_project example_root example_yaml t ''test-project'' ?fs = (Inr ?m, ?fs)"
    by simp
  have h2: "(10 :: nat) \<le> 20" by simp
  have u: "?m\<lparr>last_opened_at := Some (Naive 10)\<rparr> =
      example_meta ''test-project'' ''Test Project'' (Naive 1) (Some (Naive 10))"
    "?m\<lparr>last_opened_at := Some (Naive 20)\<rparr> =
      example_meta ''test-project'' ''Test Project'' (Naive 1) (Some (Naive 20))"
    by (simp_all add: example_meta_def)
  from open_project_touches_last_opened_at [OF h1 h2, of 9 19]
  obtain r1 fs1 r2 fs2 where
    "open_project example_root example_yaml 9 10 ''test-project'' ?fs = (Inr r1, fs1)"
    "r1 = ?m\<lparr>last_opened_at := Some (Naive 10)\<rparr>"
    "\<forall>y t. get_project example_root y t ''test-project'' fs1 = (Inr r1, fs1)"
    "open_project example_root example_yaml 19 20 ''test-project'' fs1 = (Inr r2, fs2)"
    "r2 = ?m\<lparr>last_opened_at := Some (Naive 20)\<rparr>"
    by blast
  with h1 h2 u show ?thesis by metis
qed

text \<open>
  C4. After a call of \<open>create_project\<close> that succeeded, a second call with the same
  identifier raises \<open>ProjectExistsError\<close>, whatever the name and the description, and
  leaves the file system exactly as the first call left it.
\<close>

theorem create_project_twice:
  fixes name1 :: string and description1 :: string and name2 :: string and description2 :: string
  assumes "create_project R now1 now1' project_id name1 description1 fs = (Inr m, fs1)"
  shows "create_project R now2 now2' project_id name2 description2 fs1 = (Inl ProjectExistsError, fs1)"
  using create_project_Inr_D [OF assms] by (simp add: create_project_exists)

theorem create_project_twice_witness:
  "fst (create_project example_root 1 2 ''test-project'' ''Test Project'' [] empty_forge) =
     Inr \<lparr>id' = ''test-project'', name = ''Test Project'', created_at = Naive 1,
          last_opened_at = None, description = [], status = ACTIVE, rules = default_rules\<rparr> \<and>
   create_project example_root 3 4 ''test-project'' ''Test Project Again'' []
       (snd (create_project example_root 1 2 ''test-project'' ''Test Project'' [] empty_forge)) =
     (Inl ProjectExistsError,
      snd (create_project example_root 1 2 ''test-project'' ''Test Project'' [] empty_forge))"
proof -
  let ?r = "create_project example_root 1 2 ''test-project'' ''Test Project'' [] empty_forge"
  let ?m = "\<lparr>id' = ''test-project'', name = ''Test Project'', created_at = Naive 1,
          last_opened_at = None, description = [], status = ACTIVE, rules = default_rules\<rparr>"
  have "creatable example_root empty_forge ''test-project''"
    by (simp add: example_root_def empty_forge_def fs_defs)
  moreover have "id_check_passes ''test-project''" by (simp add: id_defs)
  moreover have "ProjectMeta_new 1 [(''id'', DStr ''test-project''), (''name'', DStr ''Test Project''),
      (''description'', DStr []), (''created_at'', DTime (Naive 1))] = Inr ?m"
    by (simp add: meta_defs id_defs)
  ultimately have "\<exists>fs'. ?r = (Inr ?m, fs')"
    using create_project_created [of example_root empty_forge "''test-project''" 1
        "''Test Project''" "[]" ?m 2]
    by blast
  then have f: "fst ?r = Inr ?m" by auto
  then have h: "?r = (Inr ?m, snd ?r)" by (metis prod.collapse)
  have "create_project example_root 3 4 ''test-project'' ''Test Project Again'' [] (snd ?r) =
      (Inl ProjectExistsError, snd ?r)"
    by (rule create_project_twice [OF h])
  with f show ?thesis by blast
qed


text \<open>
  C5. Two projects whose metadata both load and validate, the \<open>created_at\<close> of one naive
  and that of the other with an offset: \<open>get_project\<close> returns the record of each, and
  \<open>list_projects\<close> returns no list but raises \<open>TypeError\<close>, from the sort, which is
  outside the \<open>try\<close> that guards the loading.
\<close>

theorem list_projects_mixed_offsets:
  "get_project example_root yaml now ''alpha'' mixed_fs =
     (Inr (example_meta ''alpha'' ''Alpha'' (Naive 5) None), mixed_fs) \<and>
   get_project example_root yaml now ''beta'' mixed_fs =
     (Inr (example_meta ''beta'' ''Beta'' (Aware 6 0) None), mixed_fs) \<and>
   list_projects example_root yaml now mixed_fs = (Inl TypeError, mixed_fs)"
  by (simp add: mixed_fs_get mixed_fs_list)

text \<open>
  C6. When the projects root is a directory, the outcome of \<open>list_projects\<close> is that of
  sorting the records of the entries whose metadata loads and validates, one record for
  each such entry. An entry with no \<open>meta/project.yaml\<close>, one whose file cannot be read or
  does not load, and one whose document fails validation are not such entries: they add
  nothing to the result and raise nothing. When the listing returns, it returns one
  record for each entry that loads; the one exception it can raise is the \<open>TypeError\<close> of
  the sort, which takes two entries that load, one with an aware and one with a naive
  sort key.
\<close>

theorem list_projects_skips_bad_metadata:
  assumes "Path_is_dir fs (PROJECTS_ROOT R)"
  shows "list_projects R yaml now fs =
           (sorted_reverse sort_key_of (stored_projects R yaml now fs), fs) \<and>
         length (stored_projects R yaml now fs) =
           length (filter (loads R yaml now fs) (project_names R fs)) \<and>
         (\<forall>m. m \<in> set (stored_projects R yaml now fs) \<longleftrightarrow>
              (\<exists>n\<in>set (project_names R fs). get_project R yaml now n fs = (Inr m, fs))) \<and>
         (\<forall>n. \<not> Path_exists fs (get_project_meta_path R n @ [''project.yaml'']) \<longrightarrow>
              \<not> loads R yaml now fs n) \<and>
         (\<forall>n e. load_yaml yaml fs (get_project_meta_path R n @ [''project.yaml'']) = Inl e \<longrightarrow>
              \<not> loads R yaml now fs n) \<and>
         (\<forall>n d e. load_yaml yaml fs (get_project_meta_path R n @ [''project.yaml'']) = Inr d \<and>
              ProjectMeta_of_data now d = Inl e \<longrightarrow> \<not> loads R yaml now fs n) \<and>
         (\<forall>ps. fst (list_projects R yaml now fs) = Inr ps \<longrightarrow>
              length ps = length (filter (loads R yaml now fs) (project_names R fs)) \<and>
              (\<forall>m\<in>set ps. \<exists>n\<in>set (project_names R fs).
                  loads R yaml now fs n \<and> get_project R yaml now n fs = (Inr m, fs))) \<and>
         (\<forall>e. fst (list_projects R yaml now fs) = Inl e \<longrightarrow>
              e = TypeError \<and>
              (\<exists>a\<in>set (project_names R fs). \<exists>b\<in>set (project_names R fs). \<exists>ma mb.
                  get_project R yaml now a fs = (Inr ma, fs) \<and>
                  get_project R yaml now b fs = (Inr mb, fs) \<and>
                  is_aware (sort_key_of ma) \<and> \<not> is_aware (sort_key_of mb)))"
proof -
  let ?st = "stored_projects R yaml now fs"
  have l: "list_projects R yaml now fs = (sorted_reverse sort_key_of ?st, fs)"
    using assms by (rule list_projects_dir)
  have len: "length ?st = length (filter (loads R yaml now fs) (project_names R fs))"
    by (rule length_stored_projects)
  have mem: "\<forall>m. m \<in> set ?st \<longleftrightarrow>
      (\<exists>n\<in>set (project_names R fs). get_project R yaml now n fs = (Inr m, fs))"
    by (simp add: in_stored_projects)
  have ok: "\<forall>ps. fst (list_projects R yaml now fs) = Inr ps \<longrightarrow>
      length ps = length (filter (loads R yaml now fs) (project_names R fs)) \<and>
      (\<forall>m\<in>set ps. \<exists>n\<in>set (project_names R fs).
          loads R yaml now fs n \<and> get_project R yaml now n fs = (Inr m, fs))"
  proof (intro allI impI conjI ballI)
    fix ps assume "fst (list_projects R yaml now fs) = Inr ps"
    with l have s: "sorted_reverse sort_key_of ?st = Inr ps" by simp
    show "length ps = length (filter (loads R yaml now fs) (project_names R fs))"
      using sorted_reverse_length [OF s] len by simp
    fix m assume "m \<in> set ps"
    with sorted_reverse_set [OF s] have "m \<in> set ?st" by simp
    then obtain n where n: "n \<in> set (project_names R fs)"
      "get_project R yaml now n fs = (Inr m, fs)"
      by (auto simp: in_stored_projects)
    then have "loads R yaml now fs n" by (auto simp: loads_iff)
    with n show "\<exists>n\<in>set (project_names R fs).
        loads R yaml now fs n \<and> get_project R yaml now n fs = (Inr m, fs)"
      by blast
  qed
  have err: "\<forall>e. fst (list_projects R yaml now fs) = Inl e \<longrightarrow>
      e = TypeError \<and>
      (\<exists>a\<in>set (project_names R fs). \<exists>b\<in>set (project_names R fs). \<exists>ma mb.
          get_project R yaml now a fs = (Inr ma, fs) \<and>
          get_project R yaml now b fs = (Inr mb, fs) \<and>
          is_aware (sort_key_of ma) \<and> \<not> is_aware (sort_key_of mb))"
  proof (intro allI impI)
    fix e assume "fst (list_projects R yaml now fs) = Inl e"
    with l have "sorted_reverse sort_key_of ?st = Inl e" by simp
    then have e: "e = TypeError" and "mixed (map sort_key_of ?st)"
      by (simp_all add: sorted_reverse_Inl)
    from mixed_D [OF this(2)] obtain ma mb where "ma \<in> set ?st" "mb \<in> set ?st"
      "is_aware (sort_key_of ma)" "\<not> is_aware (sort_key_of mb)"
      by blast
    then have "\<exists>a\<in>set (project_names R fs). \<exists>b\<in>set (project_names R fs). \<exists>ma mb.
          get_project R yaml now a fs = (Inr ma, fs) \<and>
          get_project R yaml now b fs = (Inr mb, fs) \<and>
          is_aware (sort_key_of ma) \<and> \<not> is_aware (sort_key_of mb)"
      unfolding in_stored_projects by blast
    with e show "e = TypeError \<and>
      (\<exists>a\<in>set (project_names R fs). \<exists>b\<in>set (project_names R fs). \<exists>ma mb.
          get_project R yaml now a fs = (Inr ma, fs) \<and>
          get_project R yaml now b fs = (Inr mb, fs) \<and>
          is_aware (sort_key_of ma) \<and> \<not> is_aware (sort_key_of mb))"
      by blast
  qed
  from l len mem ok err show ?thesis
    using not_loads_missing [of fs R _ yaml now] not_loads_unparsed [of yaml fs R _ _ now]
      not_loads_invalid [of yaml fs R _ _ now]
    by blast
qed

theorem list_projects_skips_bad_metadata_witness:
  "Path_is_dir example_fs (PROJECTS_ROOT example_root) \<and>
   filter (loads example_root example_yaml 20 example_fs) (project_names example_root example_fs) =
     [''alpha'', ''beta'', ''gamma''] \<and>
   \<not> Path_exists example_fs (get_project_meta_path example_root ''empty'' @ [''project.yaml'']) \<and>
   load_yaml example_yaml example_fs
     (get_project_meta_path example_root ''unreadable'' @ [''project.yaml'']) =
     Inl (OSError IsADirectoryError) \<and>
   load_yaml example_yaml example_fs
     (get_project_meta_path example_root ''broken'' @ [''project.yaml'']) = Inl YAMLError \<and>
   load_yaml example_yaml example_fs
     (get_project_meta_path example_root ''scalar'' @ [''project.yaml'']) = Inr (DStr ''to do'') \<and>
   ProjectMeta_of_data 20 (DStr ''to do'') = Inl TypeError \<and>
   (\<exists>d. load_yaml example_yaml example_fs
          (get_project_meta_path example_root ''invalid'' @ [''project.yaml'']) = Inr d \<and>
        ProjectMeta_of_data 20 d = Inl ValidationError) \<and>
   (\<exists>ps. list_projects example_root example_yaml 20 example_fs = (Inr ps, example_fs) \<and>
        length ps = 3)"
proof -
  note h = example_fs_root
  have l: "loads example_root example_yaml 20 example_fs ''alpha''"
    "loads example_root example_yaml 20 example_fs ''beta''"
    "loads example_root example_yaml 20 example_fs ''gamma''"
    "\<not> loads example_root example_yaml 20 example_fs ''notes.txt''"
    "\<not> loads example_root example_yaml 20 example_fs ''empty''"
    "\<not> loads example_root example_yaml 20 example_fs ''unreadable''"
    "\<not> loads example_root example_yaml 20 example_fs ''broken''"
    "\<not> loads example_root example_yaml 20 example_fs ''scalar''"
    "\<not> loads example_root example_yaml 20 example_fs ''invalid''"
    by (simp_all add: loads_record_of example_fs_records)
  then have f: "filter (loads example_root example_yaml 20 example_fs)
      (project_names example_root example_fs) = [''alpha'', ''beta'', ''gamma'']"
    by (simp add: example_fs_names)
  have e: "\<not> Path_exists example_fs (get_project_meta_path example_root ''empty'' @ [''project.yaml''])"
    by (simp add: example_fs_def example_root_def fs_defs)
  have u: "load_yaml example_yaml example_fs
      (get_project_meta_path example_root ''unreadable'' @ [''project.yaml'']) =
      Inl (OSError IsADirectoryError)"
    by (simp add: example_fs_def example_root_def load_yaml_def fs_defs)
  have b: "load_yaml example_yaml example_fs
      (get_project_meta_path example_root ''broken'' @ [''project.yaml'']) = Inl YAMLError"
    by (simp add: example_fs_def example_root_def example_yaml_def load_yaml_def fs_defs)
  have s: "load_yaml example_yaml example_fs
      (get_project_meta_path example_root ''scalar'' @ [''project.yaml'']) = Inr (DStr ''to do'')"
    by (simp add: example_fs_def example_root_def example_yaml_def load_yaml_def fs_defs)
  have t: "ProjectMeta_of_data 20 (DStr ''to do'') = Inl TypeError" by simp
  have i: "\<exists>d. load_yaml example_yaml example_fs
        (get_project_meta_path example_root ''invalid'' @ [''project.yaml'']) = Inr d \<and>
      ProjectMeta_of_data 20 d = Inl ValidationError"
    by (simp add: example_fs_def example_root_def load_yaml_def fs_defs meta_defs id_defs)
  from list_projects_skips_bad_metadata [OF h, of example_yaml 20]
  have "\<forall>ps. fst (list_projects example_root example_yaml 20 example_fs) = Inr ps \<longrightarrow>
      length ps = length (filter (loads example_root example_yaml 20 example_fs)
        (project_names example_root example_fs))"
    by blast
  with example_fs_list [of 20] f
  have "\<exists>ps. list_projects example_root example_yaml 20 example_fs = (Inr ps, example_fs) \<and>
      length ps = 3" by simp
  with h f e u b s t i show ?thesis by blast
qed

text \<open>
  C7. For every identifier whose project directory does not exist, both \<open>open_project\<close>
  and \<open>get_project\<close> raise \<open>ProjectNotFoundError\<close> (and leave the file system as it is).
  The project directory is what \<open>PROJECTS_ROOT / project_id\<close> resolves to.
\<close>

theorem not_found_without_directory:
  "\<not> project_exists R fs project_id \<Longrightarrow>
   open_project R yaml now now' project_id fs = (Inl ProjectNotFoundError, fs) \<and>
   get_project R yaml now project_id fs = (Inl ProjectNotFoundError, fs)"
  by (simp add: open_project_def get_project_def)

theorem not_found_without_directory_witness:
  "\<not> project_exists example_root example_fs ''nonexistent-project'' \<and>
   open_project example_root example_yaml 1 2 ''nonexistent-project'' example_fs =
     (Inl ProjectNotFoundError, example_fs) \<and>
   get_project example_root example_yaml 1 ''nonexistent-project'' example_fs =
     (Inl ProjectNotFoundError, example_fs)"
proof -
  have h: "\<not> project_exists example_root example_fs ''nonexistent-project''"
    by (simp add: example_fs_def example_root_def fs_defs)
  from not_found_without_directory [OF h, of example_yaml 1 2] h show ?thesis by blast
qed

text \<open>
  C8. For a project whose \<open>meta/project.yaml\<close> holds a mapping, \<open>get_project\<close> leaves the
  file system as it is, and what it returns is the stored record: it returns \<open>m\<close> exactly
  when every field of \<open>m\<close> is the stored one (or the default of a field that is not
  stored) and the id and the name are valid. So for the document of a valid record, as
  \<open>create_project\<close> and \<open>open_project\<close> write it, it returns that record, \<open>last_opened_at\<close>
  and every other field as persisted.
\<close>

theorem get_project_returns_stored:
  assumes "load_yaml yaml fs (get_project_meta_path R project_id @ [''project.yaml'']) =
             Inr (DMap kw)"
  shows "snd (get_project R yaml now project_id fs) = fs \<and>
         (\<forall>m. fst (get_project R yaml now project_id fs) = Inr m \<longleftrightarrow>
              stored_record now kw m \<and> id_pattern (id' m) \<and>
              1 \<le> length (name m) \<and> length (name m) \<le> 100) \<and>
         (\<forall>m0. DMap kw = ProjectMeta_dump m0 \<and> id_pattern (id' m0) \<and>
               1 \<le> length (name m0) \<and> length (name m0) \<le> 100 \<longrightarrow>
               get_project R yaml now project_id fs = (Inr m0, fs))"
proof -
  have g: "get_project R yaml now project_id fs = (ProjectMeta_new now kw, fs)"
    using get_project_loaded [OF assms, of now] by simp
  have "ProjectMeta_new now kw = Inr m0"
    if "DMap kw = ProjectMeta_dump m0" "id_pattern (id' m0)"
      "1 \<le> length (name m0)" "length (name m0) \<le> 100" for m0
    using ProjectMeta_roundtrip [OF that(2,3,4), of now] that(1) [symmetric] by simp
  with g show ?thesis by (simp add: ProjectMeta_new_iff)
qed

theorem get_project_returns_stored_witness:
  "load_yaml example_yaml demo_fs (get_project_meta_path example_root ''demo'' @ [''project.yaml'']) =
     Inr (DMap demo_kw) \<and>
   stored_record 9 demo_kw
     \<lparr>id' = ''demo'', name = ''Demo'', created_at = Naive 5, last_opened_at = Some (Naive 7),
      description = [], status = ACTIVE, rules = default_rules\<rparr> \<and>
   get_project example_root example_yaml 9 ''demo'' demo_fs =
     (Inr \<lparr>id' = ''demo'', name = ''Demo'', created_at = Naive 5, last_opened_at = Some (Naive 7),
           description = [], status = ACTIVE, rules = default_rules\<rparr>, demo_fs)"
proof -
  let ?m = "\<lparr>id' = ''demo'', name = ''Demo'', created_at = Naive 5, last_opened_at = Some (Naive 7),
          description = [], status = ACTIVE, rules = default_rules\<rparr>"
  have h: "load_yaml example_yaml demo_fs
      (get_project_meta_path example_root ''demo'' @ [''project.yaml'']) = Inr (DMap demo_kw)"
    by (simp add: demo_fs_def example_root_def load_yaml_def fs_defs)
  have s: "stored_record 9 demo_kw ?m"
    by (simp add: stored_record_def stored_as_def stored_rules_def demo_kw_def)
  have v: "id_pattern (id' ?m)" "1 \<le> length (name ?m)" "length (name ?m) \<le> 100"
    by (simp_all add: id_defs)
  from get_project_returns_stored [OF h, of 9] s v
  have "snd (get_project example_root example_yaml 9 ''demo'' demo_fs) = demo_fs"
    and "fst (get_project example_root example_yaml 9 ''demo'' demo_fs) = Inr ?m"
    by blast+
  then have "get_project example_root example_yaml 9 ''demo'' demo_fs = (Inr ?m, demo_fs)"
    by (metis prod.collapse)
  with h s show ?thesis by blast
qed

text \<open>
  C9. When the project directory exists but holds no \<open>meta/project.yaml\<close>, \<open>open_project\<close>
  and \<open>get_project\<close> do not raise \<open>ProjectNotFoundError\<close>: the check of the directory
  passes, and reading the metadata file raises an \<open>OSError\<close> that nothing handles.
\<close>

theorem missing_metadata_file_error:
  assumes "project_exists R fs project_id"
    and "\<not> Path_exists fs (get_project_meta_path R project_id @ [''project.yaml''])"
  shows "\<exists>e. get_project R yaml now project_id fs = (Inl (OSError e), fs) \<and>
             open_project R yaml now now' project_id fs = (Inl (OSError e), fs) \<and>
             OSError e \<noteq> ProjectNotFoundError"
proof -
  from assms(2) obtain e where
    "load_yaml yaml fs (get_project_meta_path R project_id @ [''project.yaml'']) = Inl (OSError e)"
    using load_yaml_missing by blast
  with assms(1) show ?thesis
    by (simp add: get_project_def open_project_def)
qed

theorem missing_metadata_file_error_witness:
  "project_exists example_root draft_fs ''draft'' \<and>
   \<not> Path_exists draft_fs (get_project_meta_path example_root ''draft'' @ [''project.yaml'']) \<and>
   (\<exists>e. get_project example_root example_yaml 1 ''draft'' draft_fs = (Inl (OSError e), draft_fs) \<and>
        open_project example_root example_yaml 1 2 ''draft'' draft_fs =
          (Inl (OSError e), draft_fs) \<and>
        OSError e \<noteq> ProjectNotFoundError)"
proof -
  have h1: "project_exists example_root draft_fs ''draft''"
    by (simp add: draft_fs_def example_root_def fs_defs)
  have h2: "\<not> Path_exists draft_fs (get_project_meta_path example_root ''draft'' @ [''project.yaml''])"
    by (simp add: draft_fs_def example_root_def fs_defs)
  from missing_metadata_file_error [OF h1 h2, of example_yaml 1 2] h1 h2 show ?thesis by blast
qed

text \<open>
  C10. With an identifier that passes the checks and a name that is empty or longer than
  100 characters, \<open>create_project\<close> raises \<open>ValidationError\<close> only after it has made the
  whole directory tree; no \<open>meta/project.yaml\<close> is written, and a later call with the same
  identifier raises \<open>ProjectExistsError\<close>.
\<close>

theorem create_project_invalid_name:
  fixes name1 :: string and description1 :: string and name2 :: string and description2 :: string
  assumes "creatable R fs project_id" and "id_check_passes project_id"
    and "\<not> (1 \<le> length name1 \<and> length name1 \<le> 100)"
  shows "\<exists>fs1. create_project R now1 now1' project_id name1 description1 fs =
             (Inl ValidationError, fs1) \<and>
           (\<forall>q\<in>set (project_tree R project_id). Path_is_dir fs1 q) \<and>
           \<not> Path_exists fs1 (get_project_meta_path R project_id @ [''project.yaml'']) \<and>
           create_project R now2 now2' project_id name2 description2 fs1 =
             (Inl ProjectExistsError, fs1)"
proof -
  from create_project_invalid [OF assms(1,2) ProjectMeta_new_bad_name [OF assms(3)]]
  obtain fs1 where
    c: "create_project R now1 now1' project_id name1 description1 fs = (Inl ValidationError, fs1)"
    and dirs: "\<forall>q\<in>set (project_tree R project_id). Path_is_dir fs1 q"
    and nof: "\<not> Path_exists fs1 (get_project_meta_path R project_id @ [''project.yaml''])"
    by blast
  from dirs have "project_exists R fs1 project_id"
    by (simp add: project_tree_def project_exists_def)
  with assms(2) have "create_project R now2 now2' project_id name2 description2 fs1 =
      (Inl ProjectExistsError, fs1)"
    by (simp add: create_project_exists)
  with c dirs nof show ?thesis by blast
qed

theorem create_project_invalid_name_witness:
  "creatable example_root empty_forge ''test-project'' \<and> id_check_passes ''test-project'' \<and>
   \<not> (1 \<le> length ([] :: string) \<and> length ([] :: string) \<le> 100) \<and>
   (\<exists>fs1. create_project example_root 1 2 ''test-project'' [] [] empty_forge =
        (Inl ValidationError, fs1) \<and>
      fs1 = test_project_dirs \<and>
      \<not> Path_exists fs1 (get_project_meta_path example_root ''test-project'' @ [''project.yaml'']) \<and>
      create_project example_root 3 4 ''test-project'' ''Test Project'' [] fs1 =
        (Inl ProjectExistsError, fs1))"
proof -
  have h1: "creatable example_root empty_forge ''test-project''"
    by (simp add: example_root_def empty_forge_def fs_defs)
  have h2: "id_check_passes ''test-project''" by (simp add: id_defs)
  have h3: "\<not> (1 \<le> length ([] :: string) \<and> length ([] :: string) \<le> 100)" by simp
  have e: "create_project example_root 1 2 ''test-project'' [] [] empty_forge =
    (Inl ValidationError, test_project_dirs)"
    by (simp add: create_project_def example_root_def empty_forge_def test_project_dirs_def
        id_defs fs_defs meta_defs)
  from create_project_invalid_name [OF h1 h2 h3, of 1 2 "[]" 3 4 "''Test Project''" "[]"] h1 h2 h3 e
  show ?thesis by auto
qed

end
